theory Spec2Isabelle
  imports Complex_Main
begin

section \<open>Event channel (lib/EventEmitter)\<close>

text \<open>
  A handler is a callback supplied by a subscriber. The channel only observes
  whether a call returns or throws, so a handler is modelled by an identifier
  and by its outcome on a payload. Payloads and thrown values are both
  JavaScript values of any kind and share the type \<open>'d\<close>.
\<close>

datatype 'd outcome = Returned | Threw 'd

record 'd handler =
  hid :: nat
  run :: "'d \<Rightarrow> 'd outcome"

text \<open>
  What a publication does to the outside world, in order. The registry
  \<^verbatim>\<open>listeners\<close> is a map from event names to handler lists: the properties that
  a JavaScript object inherits from \<^verbatim>\<open>Object.prototype\<close> are not event names here.
\<close>

datatype 'd effect =
    Called nat string 'd
  | ConsoleError string 'd

type_synonym 'd listeners = "string \<rightharpoonup> 'd handler list"

text \<open>
  The result of a call that may throw: the effects performed, and the
  exception leaving the call, if any.
\<close>

type_synonym 'd run = "'d effect list \<times> 'd option"

definition always :: "'d outcome \<Rightarrow> 'd \<Rightarrow> 'd outcome" where
  "always r d = r"

definition registered :: "'d listeners \<Rightarrow> string \<Rightarrow> 'd handler list" where
  "registered ls event = (case ls event of None \<Rightarrow> [] | Some hs \<Rightarrow> hs)"

definition after :: "'d effect list \<Rightarrow> 'd run \<Rightarrow> 'd run" where
  "after tr r = (tr @ fst r, snd r)"

text \<open>
  \<^verbatim>\<open>listeners[event] = listeners[event] || []; listeners[event].push(handler)\<close>
\<close>

definition on :: "string \<Rightarrow> 'd handler \<Rightarrow> 'd listeners \<Rightarrow> 'd listeners" where
  "on event h ls = ls(event \<mapsto> registered ls event @ [h])"

text \<open>
  \<^verbatim>\<open>emit\<close> of \<^verbatim>\<open>eventEmitter()\<close>: the \<^verbatim>\<open>forEach\<close> over the handlers of the
  event, each call inside \<^verbatim>\<open>try\<close>. An exception caught while publishing
  \<^verbatim>\<open>'error'\<close> goes to \<^verbatim>\<open>console.error\<close>; any other is published on
  \<^verbatim>\<open>'error'\<close>, and whatever that nested publication throws would leave the
  \<^verbatim>\<open>catch\<close> block and end the \<^verbatim>\<open>forEach\<close>.
\<close>

function emit_handlers ::
  "'d listeners \<Rightarrow> string \<Rightarrow> 'd \<Rightarrow> 'd handler list \<Rightarrow> 'd run"
where
  "emit_handlers ls event d [] = ([], None)"
| "emit_handlers ls event d (h # hs) =
     (case run h d of
        Returned \<Rightarrow> after [Called (hid h) event d] (emit_handlers ls event d hs)
      | Threw e \<Rightarrow>
          if event = ''error''
          then after [Called (hid h) event d, ConsoleError event e]
                 (emit_handlers ls event d hs)
          else (case emit_handlers ls ''error'' e (registered ls ''error'') of
                  (tr, Some x) \<Rightarrow> (Called (hid h) event d # tr, Some x)
                | (tr, None) \<Rightarrow>
                    after (Called (hid h) event d # tr) (emit_handlers ls event d hs)))"
  by pat_completeness auto
termination
  by (relation "measures [\<lambda>(ls, event, d, hs). if event = ''error'' then 0 else 1,
                          \<lambda>(ls, event, d, hs). length hs]") auto

definition emit :: "'d listeners \<Rightarrow> string \<Rightarrow> 'd \<Rightarrow> 'd run" where
  "emit ls event d = emit_handlers ls event d (registered ls event)"

text \<open>
  The emitter that the memory node builds for itself (memory.ts, \<^verbatim>\<open>node.emit\<close>;
  the config, fetch, llm, toolRouter and agentLoop nodes carry the same lines):
  \<^verbatim>\<open>if (listeners[event]) listeners[event].forEach(handler => handler(data))\<close>.
  There is no \<^verbatim>\<open>try\<close>: the first exception ends the \<^verbatim>\<open>forEach\<close> and leaves
  \<^verbatim>\<open>emit\<close>.
\<close>

fun node_emit_handlers :: "string \<Rightarrow> 'd \<Rightarrow> 'd handler list \<Rightarrow> 'd run" where
  "node_emit_handlers event d [] = ([], None)"
| "node_emit_handlers event d (h # hs) =
     (case run h d of
        Returned \<Rightarrow> after [Called (hid h) event d] (node_emit_handlers event d hs)
      | Threw e \<Rightarrow> ([Called (hid h) event d], Some e))"

definition node_emit :: "'d listeners \<Rightarrow> string \<Rightarrow> 'd \<Rightarrow> 'd run" where
  "node_emit ls event d =
     (case ls event of None \<Rightarrow> ([], None) | Some hs \<Rightarrow> node_emit_handlers event d hs)"

section \<open>Streams (lib/streams) and the input node\<close>

datatype stream_status = Open | Paused | Errored | Closed

text \<open>
  \<^verbatim>\<open>readStream()\<close> builds the object \<^verbatim>\<open>rs = {...s, status: "paused", pipe, resume, pause}\<close>
  over an emitter \<^verbatim>\<open>s\<close>. The handler registry is the closure variable of the
  emitter; \<^verbatim>\<open>rs_status\<close> is the field \<^verbatim>\<open>status\<close> of the object \<^verbatim>\<open>rs\<close>, the
  one that \<^verbatim>\<open>resume\<close> and \<^verbatim>\<open>pause\<close> assign.
\<close>

record 'd readStream =
  rs_listeners :: "'d listeners"
  rs_status :: stream_status

definition readStream :: "'d readStream" where
  "readStream = \<lparr>rs_listeners = Map.empty, rs_status = Paused\<rparr>"

definition rs_resume :: "'d readStream \<Rightarrow> 'd readStream" where
  "rs_resume rs = rs\<lparr>rs_status := Open\<rparr>"

definition rs_pause :: "'d readStream \<Rightarrow> 'd readStream" where
  "rs_pause rs = rs\<lparr>rs_status := Paused\<rparr>"

text \<open>
  \<^verbatim>\<open>pipe(readStream, writeStream)\<close> subscribes three closures that forward to the
  sink. Their bodies run code of the sink, so they are taken as given handlers.
\<close>

record 'd forwarders =
  fwd_data :: "'d handler"
  fwd_error :: "'d handler"
  fwd_close :: "'d handler"

definition pipe :: "'d forwarders \<Rightarrow> 'd listeners \<Rightarrow> 'd listeners" where
  "pipe fw ls = on ''close'' (fwd_close fw) (on ''error'' (fwd_error fw) (on ''data'' (fwd_data fw) ls))"

definition rs_pipe :: "'d forwarders \<Rightarrow> 'd readStream \<Rightarrow> 'd readStream" where
  "rs_pipe fw rs = rs_resume (rs\<lparr>rs_listeners := pipe fw (rs_listeners rs)\<rparr>)"

text \<open>
  \<^verbatim>\<open>input()\<close> returns \<^verbatim>\<open>s = {...rs, trigger}\<close>: a new object whose \<^verbatim>\<open>status\<close>
  field is a copy of \<^verbatim>\<open>rs.status\<close> taken at construction, and whose inherited
  methods are the closures of \<^verbatim>\<open>rs\<close>. The node is the pair of both objects:
  \<^verbatim>\<open>inner\<close> is \<^verbatim>\<open>rs\<close>, \<^verbatim>\<open>in_status\<close> is the field read by a caller of
  \<^verbatim>\<open>node.status\<close>.
\<close>

record 'd input_node =
  inner :: "'d readStream"
  in_status :: stream_status

definition input :: "'d input_node" where
  "input = (let rs = readStream in \<lparr>inner = rs, in_status = rs_status rs\<rparr>)"

datatype 'd input_call =
    Resume
  | Pause
  | Pipe "'d forwarders"
  | On string "'d handler"
  | Trigger 'd
  | Emit string 'd

text \<open>The state change of one method call on the node returned by \<^verbatim>\<open>input()\<close>.\<close>

fun input_step :: "'d input_call \<Rightarrow> 'd input_node \<Rightarrow> 'd input_node" where
  "input_step Resume n = n\<lparr>inner := rs_resume (inner n)\<rparr>"
| "input_step Pause n = n\<lparr>inner := rs_pause (inner n)\<rparr>"
| "input_step (Pipe fw) n = n\<lparr>inner := rs_pipe fw (inner n)\<rparr>"
| "input_step (On event h) n =
     n\<lparr>inner := (inner n)\<lparr>rs_listeners := on event h (rs_listeners (inner n))\<rparr>\<rparr>"
| "input_step (Trigger d) n = n"
| "input_step (Emit event d) n = n"

text \<open>\<^verbatim>\<open>trigger: (data) => { s.emit("data", data) }\<close>\<close>

definition trigger :: "'d \<Rightarrow> 'd input_node \<Rightarrow> 'd run" where
  "trigger d n = emit (rs_listeners (inner n)) ''data'' d"

definition input_calls :: "'d input_call list \<Rightarrow> 'd input_node \<Rightarrow> 'd input_node" where
  "input_calls cs n = fold input_step cs n"

section \<open>Conversation data (nodes/memory.ts, nodes/llm.ts)\<close>

text \<open>
  \<open>'j\<close> is the type of the JSON values that the program passes along without
  looking inside: tool arguments, and whatever a tool handler returns or throws
  that is not a string or an \<^verbatim>\<open>Error\<close>.
\<close>

datatype role = User | Assistant | System

datatype 'j ContentBlock =
    Text string
  | ToolUse string string 'j
  | ToolResult string "string option" "bool option"

datatype 'j content = Str string | Blocks "'j ContentBlock list"

record 'j Message =
  role :: role
  content :: "'j content"

section \<open>JavaScript numbers\<close>

text \<open>
  A value of type \<^verbatim>\<open>number\<close>: a finite value, one of the two infinities, or
  \<^verbatim>\<open>NaN\<close>. The operations are those the code applies to its configured limits.
\<close>

datatype number = Finite real | PosInfinity | NegInfinity | NaN

text \<open>Truthiness: every number but \<^verbatim>\<open>0\<close> and \<^verbatim>\<open>NaN\<close>.\<close>

definition truthy :: "number \<Rightarrow> bool" where
  "truthy n = (case n of Finite x \<Rightarrow> x \<noteq> 0 | NaN \<Rightarrow> False | _ \<Rightarrow> True)"

text \<open>\<^verbatim>\<open>a < n\<close> and \<^verbatim>\<open>a > n\<close> for a finite \<open>a\<close>; a comparison with \<^verbatim>\<open>NaN\<close> is false.\<close>

definition less_than :: "real \<Rightarrow> number \<Rightarrow> bool" where
  "less_than a n =
     (case n of Finite x \<Rightarrow> a < x | PosInfinity \<Rightarrow> True | NegInfinity \<Rightarrow> False | NaN \<Rightarrow> False)"

definition greater_than :: "real \<Rightarrow> number \<Rightarrow> bool" where
  "greater_than a n =
     (case n of Finite x \<Rightarrow> a > x | PosInfinity \<Rightarrow> False | NegInfinity \<Rightarrow> True | NaN \<Rightarrow> False)"

text \<open>\<^verbatim>\<open>a - n\<close> for a finite \<open>a\<close>.\<close>

definition minus_from :: "real \<Rightarrow> number \<Rightarrow> number" where
  "minus_from a n =
     (case n of Finite x \<Rightarrow> Finite (a - x) | PosInfinity \<Rightarrow> NegInfinity
      | NegInfinity \<Rightarrow> PosInfinity | NaN \<Rightarrow> NaN)"

text \<open>
  A number used as a count of at most \<open>limit\<close> elements: it is truncated to an
  integer (\<^verbatim>\<open>NaN\<close> to \<^verbatim>\<open>0\<close>) and clamped between \<open>0\<close> and the limit.
\<close>

definition to_count :: "number \<Rightarrow> nat \<Rightarrow> nat" where
  "to_count n limit =
     (case n of Finite d \<Rightarrow> min (nat \<lfloor>d\<rfloor>) limit | PosInfinity \<Rightarrow> limit | _ \<Rightarrow> 0)"


section \<open>Conversation store (nodes/memory.ts)\<close>

record MemoryConfig =
  maxMessages :: "number option"
  systemPrompt :: "string option"

text \<open>What the store publishes: \<^verbatim>\<open>{ messages: [...messages] }\<close>, or any other value.\<close>

datatype 'j payload = MessagesData "'j Message list" | Other 'j

record 'j memory_node =
  mem_set :: MemoryConfig
  messages :: "'j Message list"
  mem_status :: stream_status
  mem_listeners :: "'j payload listeners"

definition memory :: "MemoryConfig \<Rightarrow> 'j memory_node" where
  "memory cfg =
     \<lparr>mem_set = cfg,
      messages = (case systemPrompt cfg of
                    None \<Rightarrow> []
                  | Some p \<Rightarrow> if p \<noteq> [] then [\<lparr>role = System, content = Str p\<rparr>] else []),
      mem_status = Paused,
      mem_listeners = Map.empty\<rparr>"

text \<open>\<^verbatim>\<open>getMessages: () => [...messages]\<close>\<close>

definition getMessages :: "'j memory_node \<Rightarrow> 'j Message list" where
  "getMessages n = messages n"

text \<open>
  \<^verbatim>\<open>xs.splice(start, deleteCount)\<close> for a start and a count within the list.
\<close>

definition splice :: "nat \<Rightarrow> nat \<Rightarrow> 'a list \<Rightarrow> 'a list" where
  "splice start deleteCount xs = take start xs @ drop (start + deleteCount) xs"

text \<open>\<^verbatim>\<open>messages[0]?.role === "system"\<close>\<close>

definition first_is_system :: "'j Message list \<Rightarrow> bool" where
  "first_is_system ms = (case ms of [] \<Rightarrow> False | m # _ \<Rightarrow> role m = System)"

text \<open>
  The limit of \<^verbatim>\<open>addMessage\<close>, applied to the list after the push:
  \<^verbatim>\<open>if (set.maxMessages && messages.length > set.maxMessages)\<close>, then
  \<^verbatim>\<open>messages.splice(startIndex, excess)\<close> with
  \<^verbatim>\<open>excess = messages.length - set.maxMessages\<close>, a number that \<^verbatim>\<open>splice\<close>
  truncates to a count.
\<close>

definition retain :: "MemoryConfig \<Rightarrow> 'j Message list \<Rightarrow> 'j Message list" where
  "retain cfg ms =
     (case maxMessages cfg of
        None \<Rightarrow> ms
      | Some mx \<Rightarrow>
          if truthy mx \<and> greater_than (real (length ms)) mx
          then let hasSystemPrompt = first_is_system ms;
                   startIndex = (if hasSystemPrompt then 1 else 0);
                   excess = minus_from (real (length ms)) mx
               in splice startIndex (to_count excess (length ms)) ms
          else ms)"

text \<open>
  \<^verbatim>\<open>addMessage\<close>: push, enforce the limit, then publish. The state is returned
  together with the run of the publication, whose exception (if a subscriber
  throws) leaves \<^verbatim>\<open>addMessage\<close> after the list was updated.
\<close>

definition addMessage ::
  "'j Message \<Rightarrow> 'j memory_node \<Rightarrow> 'j memory_node \<times> 'j payload run" where
  "addMessage m n =
     (let ms = retain (mem_set n) (messages n @ [m]);
          n' = n\<lparr>messages := ms\<rparr>
      in (n', node_emit (mem_listeners n') ''data'' (MessagesData ms)))"

definition clear :: "'j memory_node \<Rightarrow> 'j memory_node \<times> 'j payload run" where
  "clear n =
     (let systemPrompt = (case messages n of
                            [] \<Rightarrow> None
                          | m # _ \<Rightarrow> if role m = System then Some m else None);
          ms = (case systemPrompt of None \<Rightarrow> [] | Some p \<Rightarrow> [p]);
          n' = n\<lparr>messages := ms\<rparr>
      in (n', node_emit (mem_listeners n') ''data'' (MessagesData ms)))"

text \<open>\<^verbatim>\<open>node.on\<close> of the memory node.\<close>

definition mem_on :: "string \<Rightarrow> 'j payload handler \<Rightarrow> 'j memory_node \<Rightarrow> 'j memory_node" where
  "mem_on event h n = n\<lparr>mem_listeners := on event h (mem_listeners n)\<rparr>"

text \<open>A run of calls on the store, each one on the state left by the one before.\<close>

datatype 'j memory_call =
    AddMessage "'j Message"
  | Clear
  | Subscribe string "'j payload handler"

fun memory_step :: "'j memory_call \<Rightarrow> 'j memory_node \<Rightarrow> 'j memory_node" where
  "memory_step (AddMessage m) n = fst (addMessage m n)"
| "memory_step Clear n = fst (clear n)"
| "memory_step (Subscribe event h) n = mem_on event h n"

definition memory_calls :: "'j memory_call list \<Rightarrow> 'j memory_node \<Rightarrow> 'j memory_node" where
  "memory_calls cs n = fold memory_step cs n"

section \<open>Tool dispatch (nodes/toolRouter.ts, executeTools of nodes/agentLoop.ts)\<close>

record 'j ToolCall =
  call_id :: string
  call_name :: string
  call_input :: 'j

text \<open>
  A tool result. Its \<^verbatim>\<open>content\<close> is declared a string; it is \<^verbatim>\<open>undefined\<close>
  (\<open>None\<close>) when \<^verbatim>\<open>JSON.stringify\<close> returned \<^verbatim>\<open>undefined\<close>.
\<close>

record ToolResult =
  tool_use_id :: string
  result_content :: "string option"
  is_error :: "bool option"

text \<open>
  The platform functions the code calls on opaque values. \<^verbatim>\<open>JSON.stringify\<close>
  returns a string, returns \<^verbatim>\<open>undefined\<close> (for \<^verbatim>\<open>undefined\<close>, a function or a
  symbol) or throws (for a cyclic value or a \<^verbatim>\<open>BigInt\<close>); \<^verbatim>\<open>JSON.parse\<close> returns
  a value or throws (\<open>None\<close>); \<^verbatim>\<open>String\<close> and the conversion of a number to a
  string return a string. An exception raised by the platform is a \<^verbatim>\<open>TypeError\<close>
  or a \<^verbatim>\<open>SyntaxError\<close> whose message the engine words: \<^verbatim>\<open>not_callable\<close> is the
  message for calling a value that is not a function, and \<^verbatim>\<open>no_receiver\<close> the
  message of an \<^verbatim>\<open>Object.prototype\<close> method called without a receiver.
\<close>

datatype stringified = Json string | NoJson | StringifyError string

record 'j builtins =
  JSON_stringify :: "'j \<Rightarrow> stringified"
  JSON_parse :: "string \<Rightarrow> 'j option"
  String_of :: "'j \<Rightarrow> string"
  Number_toString :: "real \<Rightarrow> string"
  not_callable :: string
  no_receiver :: "string \<Rightarrow> string"

text \<open>
  A tool handler is user code: \<^verbatim>\<open>(input) => Promise<string> | string\<close>. It is
  modelled by what awaiting its result gives and by the time this takes: the value
  it returns or resolves with, or what it throws or rejects with. A thrown
  \<^verbatim>\<open>Error\<close> carries its message.
\<close>

datatype 'j returned = StringValue string | JsonValue 'j

datatype 'j thrown = ErrorObject string | NonError 'j

datatype 'j settled = Fulfilled "'j returned" | Rejected "'j thrown"

record 'j handler_run =
  latency :: nat
  settled :: "'j settled"

type_synonym 'j ToolHandler = "'j \<Rightarrow> 'j handler_run"

text \<open>
  The handler table \<^verbatim>\<open>tools\<close> (\<^verbatim>\<open>toolHandlers\<close> in the agent loop) is the plain
  object \<^verbatim>\<open>{ ...set.tools }\<close>. Its own keys are the registered names.
\<close>

type_synonym 'j tools = "string \<rightharpoonup> 'j ToolHandler"

text \<open>
  \<^verbatim>\<open>tools[toolCall.name]\<close> reads a property, and a plain object inherits the
  properties of \<^verbatim>\<open>Object.prototype\<close>. What the lookup finds is a registered
  handler, an inherited function, the inherited value of \<^verbatim>\<open>__proto__\<close> (the
  prototype object itself, which is truthy and is not a function), or nothing.
\<close>

datatype 'j property = Registered "'j ToolHandler" | Inherited string | PrototypeObject | Absent

definition Object_prototype_methods :: "string list" where
  "Object_prototype_methods =
     [''constructor'', ''toString'', ''toLocaleString'', ''valueOf'', ''hasOwnProperty'',
      ''isPrototypeOf'', ''propertyIsEnumerable'', ''__defineGetter__'', ''__defineSetter__'',
      ''__lookupGetter__'', ''__lookupSetter__'']"

definition get_property :: "'j tools \<Rightarrow> string \<Rightarrow> 'j property" where
  "get_property tools n =
     (case tools n of
        Some handler \<Rightarrow> Registered handler
      | None \<Rightarrow>
          if n \<in> set Object_prototype_methods then Inherited n
          else if n = ''__proto__'' then PrototypeObject
          else Absent)"

text \<open>
  An inherited function called as \<^verbatim>\<open>handler(toolCall.input)\<close>, that is with the
  receiver \<^verbatim>\<open>undefined\<close>, on an input that is an object (the type of a tool
  input): \<^verbatim>\<open>constructor\<close> is \<^verbatim>\<open>Object\<close> and returns its argument,
  \<^verbatim>\<open>toString\<close> returns the tag of \<^verbatim>\<open>undefined\<close>, and every other method throws
  a \<^verbatim>\<open>TypeError\<close> for the missing receiver. All return at once.
\<close>

definition inherited_call :: "'j builtins \<Rightarrow> string \<Rightarrow> 'j \<Rightarrow> 'j handler_run" where
  "inherited_call b n inp =
     \<lparr>latency = 0,
      settled = (if n = ''constructor'' then Fulfilled (JsonValue inp)
                 else if n = ''toString'' then Fulfilled (StringValue ''[object Undefined]'')
                 else Rejected (ErrorObject (no_receiver b n)))\<rparr>"

text \<open>
  One element of \<^verbatim>\<open>toolCalls.map(async (toolCall) => ...)\<close>: the functions it
  calls as handlers, when its promise resolves, and with which result. The promise
  never rejects, every exception being caught.
\<close>

record 'j call_run =
  invoked :: "(string \<times> 'j) list"
  resolves_at :: nat
  resolved :: ToolResult

definition quote :: string where
  "quote = [CHR 0x22]"

definition error_message :: "'j builtins \<Rightarrow> 'j thrown \<Rightarrow> string" where
  "error_message b error =
     (case error of ErrorObject message \<Rightarrow> message | NonError v \<Rightarrow> String_of b v)"

text \<open>The \<^verbatim>\<open>try\<close> block and its \<^verbatim>\<open>catch\<close>, for what the handler call settled with.\<close>

definition settle_result :: "'j builtins \<Rightarrow> string \<Rightarrow> 'j settled \<Rightarrow> ToolResult" where
  "settle_result b i s =
     (case s of
        Fulfilled (StringValue r) \<Rightarrow>
          \<lparr>tool_use_id = i, result_content = Some r, is_error = None\<rparr>
      | Fulfilled (JsonValue v) \<Rightarrow>
          (case JSON_stringify b v of
             Json r \<Rightarrow> \<lparr>tool_use_id = i, result_content = Some r, is_error = None\<rparr>
           | NoJson \<Rightarrow> \<lparr>tool_use_id = i, result_content = None, is_error = None\<rparr>
           | StringifyError message \<Rightarrow>
               \<lparr>tool_use_id = i, result_content = Some (''Error: '' @ message),
                is_error = Some True\<rparr>)
      | Rejected error \<Rightarrow>
          \<lparr>tool_use_id = i, result_content = Some (''Error: '' @ error_message b error),
           is_error = Some True\<rparr>)"

definition run_tool_call :: "'j builtins \<Rightarrow> 'j tools \<Rightarrow> 'j ToolCall \<Rightarrow> 'j call_run" where
  "run_tool_call b tools toolCall =
     (case get_property tools (call_name toolCall) of
        Absent \<Rightarrow>
          \<lparr>invoked = [], resolves_at = 0,
           resolved = \<lparr>tool_use_id = call_id toolCall,
                       result_content =
                         Some (''Error: Tool '' @ quote @ call_name toolCall @ quote @ '' not found''),
                       is_error = Some True\<rparr>\<rparr>
      | Registered handler \<Rightarrow>
          (let r = handler (call_input toolCall)
           in \<lparr>invoked = [(call_name toolCall, call_input toolCall)],
               resolves_at = latency r,
               resolved = settle_result b (call_id toolCall) (settled r)\<rparr>)
      | Inherited n \<Rightarrow>
          (let r = inherited_call b n (call_input toolCall)
           in \<lparr>invoked = [(call_name toolCall, call_input toolCall)],
               resolves_at = latency r,
               resolved = settle_result b (call_id toolCall) (settled r)\<rparr>)
      | PrototypeObject \<Rightarrow>
          \<lparr>invoked = [], resolves_at = 0,
           resolved = settle_result b (call_id toolCall) (Rejected (ErrorObject (not_callable b)))\<rparr>)"

text \<open>
  \<^verbatim>\<open>Promise.all\<close>: every promise, as it resolves, stores its value in the slot
  of its own index; the result is the array of slots once none is empty. The
  promises resolve by increasing time, earlier index first among equal times.
\<close>

definition completion_order :: "nat list \<Rightarrow> nat list" where
  "completion_order delays = sort_key (\<lambda>i. delays ! i) [0..<length delays]"

fun store_resolved :: "nat list \<Rightarrow> 'a list \<Rightarrow> 'a option list \<Rightarrow> 'a option list" where
  "store_resolved [] values slots = slots"
| "store_resolved (i # order) values slots =
     store_resolved order values (slots[i := Some (values ! i)])"

fun all_filled :: "'a option list \<Rightarrow> 'a list option" where
  "all_filled [] = Some []"
| "all_filled (None # slots) = None"
| "all_filled (Some v # slots) = map_option ((#) v) (all_filled slots)"

definition Promise_all_in :: "nat list \<Rightarrow> 'a list \<Rightarrow> 'a list option" where
  "Promise_all_in order values =
     all_filled (store_resolved order values (replicate (length values) None))"

definition Promise_all :: "(nat \<times> 'a) list \<Rightarrow> 'a list option" where
  "Promise_all promises =
     Promise_all_in (completion_order (map fst promises)) (map snd promises)"

definition executeTools ::
  "'j builtins \<Rightarrow> 'j tools \<Rightarrow> 'j ToolCall list \<Rightarrow> ToolResult list option" where
  "executeTools b toolHandlers toolCalls =
     Promise_all (map (\<lambda>toolCall. let r = run_tool_call b toolHandlers toolCall
                                  in (resolves_at r, resolved r)) toolCalls)"

text \<open>The handler calls of a batch, in the order the calls are started.\<close>

definition invocations :: "'j builtins \<Rightarrow> 'j tools \<Rightarrow> 'j ToolCall list \<Rightarrow> (string \<times> 'j) list" where
  "invocations b tools toolCalls = concat (map (\<lambda>toolCall. invoked (run_tool_call b tools toolCall)) toolCalls)"

definition tool_result_block :: "ToolResult \<Rightarrow> 'j ContentBlock" where
  "tool_result_block result =
     ToolResult (tool_use_id result) (result_content result) (is_error result)"

text \<open>
  The \<^verbatim>\<open>"input"\<close> handler of the tool router and the \<^verbatim>\<open>"data"\<close> payload it
  publishes (\<open>None\<close>: nothing is published, the batch never completing).
\<close>

record 'j router_data =
  results :: "ToolResult list"
  contentBlocks :: "'j ContentBlock list option"
  hasToolCalls :: bool

definition toolRouter_input ::
  "'j builtins \<Rightarrow> 'j tools \<Rightarrow> 'j ToolCall list option \<Rightarrow> 'j router_data option" where
  "toolRouter_input b tools inputToolCalls =
     (let toolCalls = (case inputToolCalls of None \<Rightarrow> [] | Some tcs \<Rightarrow> tcs)
      in if length toolCalls = 0
         then Some \<lparr>results = [], contentBlocks = None, hasToolCalls = False\<rparr>
         else (case Promise_all (map (\<lambda>toolCall. let r = run_tool_call b tools toolCall
                                                   in (resolves_at r, resolved r)) toolCalls) of
                 None \<Rightarrow> None
               | Some rs \<Rightarrow>
                   Some \<lparr>results = rs,
                         contentBlocks = Some (map tool_result_block rs),
                         hasToolCalls = True\<rparr>))"

section \<open>Protocol adapter (nodes/llm.ts, nodes/agentLoop.ts)\<close>

record 'j ToolDefinition =
  name :: string
  description :: string
  input_schema :: 'j

text \<open>\<^verbatim>\<open>xs.join("\n")\<close>\<close>

fun join :: "string \<Rightarrow> string list \<Rightarrow> string" where
  "join sep [] = []"
| "join sep [x] = x"
| "join sep (x # y # ys) = x @ sep @ join sep (y # ys)"

definition newline :: string where
  "newline = [CHR 0x0A]"

text \<open>The three \<^verbatim>\<open>filter\<close>s by block type, with the projections that follow them.\<close>

fun text_of :: "'j ContentBlock \<Rightarrow> string option" where
  "text_of (Text t) = Some t"
| "text_of _ = None"

definition textBlocks :: "'j ContentBlock list \<Rightarrow> string list" where
  "textBlocks bs = List.map_filter text_of bs"

fun tool_use_of :: "'j ContentBlock \<Rightarrow> 'j ToolCall option" where
  "tool_use_of (ToolUse i n inp) = Some \<lparr>call_id = i, call_name = n, call_input = inp\<rparr>"
| "tool_use_of _ = None"

definition toolUseBlocks :: "'j ContentBlock list \<Rightarrow> 'j ToolCall list" where
  "toolUseBlocks bs = List.map_filter tool_use_of bs"

fun tool_result_of :: "'j ContentBlock \<Rightarrow> (string \<times> string option) option" where
  "tool_result_of (ToolResult i c e) = Some (i, c)"
| "tool_result_of _ = None"

definition toolResultBlocks :: "'j ContentBlock list \<Rightarrow> (string \<times> string option) list" where
  "toolResultBlocks bs = List.map_filter tool_result_of bs"

subsection \<open>Anthropic-style request\<close>

record 'j AnthropicRequest =
  a_model :: string
  a_max_tokens :: int
  a_messages :: "'j Message list"
  a_system :: "string option"
  a_tools :: "'j ToolDefinition list option"

text \<open>\<^verbatim>\<open>b.text || ""\<close> for a block of any type.\<close>

definition text_or_empty :: "'j ContentBlock \<Rightarrow> string" where
  "text_or_empty b = (case text_of b of None \<Rightarrow> [] | Some t \<Rightarrow> t)"

definition system_text :: "'j content \<Rightarrow> string" where
  "system_text c =
     (case c of Str s \<Rightarrow> s | Blocks bs \<Rightarrow> join newline (map text_or_empty bs))"

text \<open>
  The \<^verbatim>\<open>filter\<close> whose callback assigns \<^verbatim>\<open>systemPrompt\<close>: the messages are
  visited in order, the variable is carried along, and the messages kept are
  returned with its last value.
\<close>

fun extract_system ::
  "'j Message list \<Rightarrow> string option \<Rightarrow> string option \<times> 'j Message list" where
  "extract_system [] prompt = (prompt, [])"
| "extract_system (m # ms) prompt =
     (if role m = System
      then extract_system ms (Some (system_text (content m)))
      else (case extract_system ms prompt of (p, kept) \<Rightarrow> (p, m # kept)))"

text \<open>
  The request body of \<^verbatim>\<open>callAnthropic\<close>, the same lines in the llm node and in
  the agent loop. \<^verbatim>\<open>system\<close> and \<^verbatim>\<open>tools\<close> are set only under their guards.
\<close>

definition anthropic_request ::
  "string \<Rightarrow> int \<Rightarrow> 'j Message list \<Rightarrow> 'j ToolDefinition list \<Rightarrow> 'j AnthropicRequest" where
  "anthropic_request model maxTokens msgs tools =
     (case extract_system msgs None of
        (prompt, filteredMessages) \<Rightarrow>
          \<lparr>a_model = model,
           a_max_tokens = maxTokens,
           a_messages = filteredMessages,
           a_system = (case prompt of
                         None \<Rightarrow> None
                       | Some p \<Rightarrow> if p \<noteq> [] then Some p else None),
           a_tools = (if length tools > 0 then Some tools else None)\<rparr>)"

record 'j AnthropicResponse =
  r_content :: "'j ContentBlock list"
  r_stop_reason :: string

text \<open>What a model call hands to the loop.\<close>

record 'j llm_response =
  resp_content :: "'j ContentBlock list"
  toolCalls :: "'j ToolCall list"
  stopReason :: string

definition anthropic_inbound :: "'j AnthropicResponse \<Rightarrow> 'j llm_response" where
  "anthropic_inbound data =
     \<lparr>resp_content = r_content data,
      toolCalls = toolUseBlocks (r_content data),
      stopReason = r_stop_reason data\<rparr>"

subsection \<open>OpenAI-style request\<close>

datatype openai_role = Role role | Tool

text \<open>
  \<^verbatim>\<open>arguments\<close> is \<^verbatim>\<open>JSON.stringify(b.input)\<close>: a string, or \<^verbatim>\<open>undefined\<close>
  (\<open>None\<close>) when the input has no JSON text.
\<close>

record openai_tool_call =
  tc_id :: string
  tc_name :: string
  tc_arguments :: "string option"

record OpenAIMessage =
  o_role :: openai_role
  o_content :: "string option"
  o_tool_calls :: "openai_tool_call list option"
  o_tool_call_id :: "string option"

definition openai_message :: "openai_role \<Rightarrow> string option \<Rightarrow> OpenAIMessage" where
  "openai_message r c = \<lparr>o_role = r, o_content = c, o_tool_calls = None, o_tool_call_id = None\<rparr>"

text \<open>
  \<^verbatim>\<open>toolUseBlocks.map(b => ({ id, type, function: { name, arguments } }))\<close>;
  an exception of \<^verbatim>\<open>JSON.stringify\<close> ends the conversion.
\<close>

fun convertToolUses :: "'j builtins \<Rightarrow> 'j ToolCall list \<Rightarrow> string + openai_tool_call list" where
  "convertToolUses b [] = Inr []"
| "convertToolUses b (u # us) =
     (case JSON_stringify b (call_input u) of
        StringifyError message \<Rightarrow> Inl message
      | Json r \<Rightarrow>
          (case convertToolUses b us of
             Inl e \<Rightarrow> Inl e
           | Inr tcs \<Rightarrow> Inr (\<lparr>tc_id = call_id u, tc_name = call_name u, tc_arguments = Some r\<rparr> # tcs))
      | NoJson \<Rightarrow>
          (case convertToolUses b us of
             Inl e \<Rightarrow> Inl e
           | Inr tcs \<Rightarrow> Inr (\<lparr>tc_id = call_id u, tc_name = call_name u, tc_arguments = None\<rparr> # tcs)))"

text \<open>The callback of \<^verbatim>\<open>messages.flatMap\<close>, for one message.\<close>

definition convertMessage :: "'j builtins \<Rightarrow> 'j Message \<Rightarrow> string + OpenAIMessage list" where
  "convertMessage b msg =
     (case content msg of
        Str s \<Rightarrow> Inr [openai_message (Role (role msg)) (Some s)]
      | Blocks bs \<Rightarrow>
          (let texts = join newline (textBlocks bs) in
           if role msg = Assistant then
             (if length (toolUseBlocks bs) > 0
              then (case convertToolUses b (toolUseBlocks bs) of
                      Inl e \<Rightarrow> Inl e
                    | Inr tcs \<Rightarrow>
                        Inr [(openai_message (Role Assistant) (if texts \<noteq> [] then Some texts else None))
                               \<lparr>o_tool_calls := Some tcs\<rparr>])
              else Inr [openai_message (Role Assistant) (if texts \<noteq> [] then Some texts else None)])
           else if role msg = User then
             Inr (map (\<lambda>(i, c). (openai_message Tool c)\<lparr>o_tool_call_id := Some i\<rparr>)
                    (toolResultBlocks bs)
                  @ (if length (textBlocks bs) > 0 then [openai_message (Role User) (Some texts)] else []))
           else Inr [openai_message (Role (role msg)) (Some texts)]))"

fun convertToOpenAIMessages :: "'j builtins \<Rightarrow> 'j Message list \<Rightarrow> string + OpenAIMessage list" where
  "convertToOpenAIMessages b [] = Inr []"
| "convertToOpenAIMessages b (msg # msgs) =
     (case convertMessage b msg of
        Inl e \<Rightarrow> Inl e
      | Inr ws \<Rightarrow>
          (case convertToOpenAIMessages b msgs of Inl e \<Rightarrow> Inl e | Inr ws' \<Rightarrow> Inr (ws @ ws')))"

record 'j openai_tool =
  f_name :: string
  f_description :: string
  f_parameters :: 'j

definition convertToolsToOpenAI :: "'j ToolDefinition list \<Rightarrow> 'j openai_tool list" where
  "convertToolsToOpenAI tools =
     map (\<lambda>tool. \<lparr>f_name = name tool, f_description = description tool,
                   f_parameters = input_schema tool\<rparr>) tools"

record 'j OpenAIRequest =
  o_model :: string
  o_max_tokens :: int
  o_messages :: "OpenAIMessage list"
  o_tools :: "'j openai_tool list option"

text \<open>
  The request body of \<^verbatim>\<open>callOpenAI\<close>; the conversion of the messages comes first
  and may throw.
\<close>

definition openai_request ::
  "'j builtins \<Rightarrow> string \<Rightarrow> int \<Rightarrow> 'j Message list \<Rightarrow> 'j ToolDefinition list
   \<Rightarrow> string + 'j OpenAIRequest" where
  "openai_request b model maxTokens msgs tools =
     (case convertToOpenAIMessages b msgs of
        Inl e \<Rightarrow> Inl e
      | Inr openAIMessages \<Rightarrow>
          Inr \<lparr>o_model = (if take 3 model = ''gpt'' then model else ''gpt-4o''),
               o_max_tokens = maxTokens,
               o_messages = openAIMessages,
               o_tools = (if length tools > 0 then Some (convertToolsToOpenAI tools) else None)\<rparr>)"

record openai_choice =
  message :: OpenAIMessage
  finish_reason :: string

record OpenAIResponse =
  choices :: "openai_choice list"

text \<open>
  The \<^verbatim>\<open>forEach\<close> over \<^verbatim>\<open>tool_calls\<close>; \<^verbatim>\<open>JSON.parse\<close> throws on arguments that
  are not JSON, which ends the conversion with that exception. An exception is
  kept as the message of its \<^verbatim>\<open>Error\<close>; for an exception raised by the platform
  the name of its class stands for the message, whose wording the engine decides.
\<close>

fun parse_tool_calls :: "'j builtins \<Rightarrow> openai_tool_call list \<Rightarrow> string + 'j ToolCall list" where
  "parse_tool_calls b [] = Inr []"
| "parse_tool_calls b (tc # tcs) =
     (case (case tc_arguments tc of None \<Rightarrow> None | Some a \<Rightarrow> JSON_parse b a) of
        None \<Rightarrow> Inl ''SyntaxError''
      | Some inp \<Rightarrow>
          (case parse_tool_calls b tcs of
             Inl e \<Rightarrow> Inl e
           | Inr calls \<Rightarrow> Inr (\<lparr>call_id = tc_id tc, call_name = tc_name tc, call_input = inp\<rparr> # calls)))"

definition tool_use_block :: "'j ToolCall \<Rightarrow> 'j ContentBlock" where
  "tool_use_block c = ToolUse (call_id c) (call_name c) (call_input c)"

definition convertOpenAIResponseToAnthropic ::
  "'j builtins \<Rightarrow> OpenAIResponse \<Rightarrow> string + 'j llm_response" where
  "convertOpenAIResponseToAnthropic b response =
     (case choices response of
        [] \<Rightarrow> Inl ''TypeError''
      | choice # _ \<Rightarrow>
          (let texts = (case o_content (message choice) of
                          None \<Rightarrow> []
                        | Some c \<Rightarrow> if c \<noteq> [] then [Text c] else [])
           in case parse_tool_calls b (case o_tool_calls (message choice) of
                                         None \<Rightarrow> [] | Some tcs \<Rightarrow> tcs) of
                Inl e \<Rightarrow> Inl e
              | Inr calls \<Rightarrow>
                  Inr \<lparr>resp_content = texts @ map tool_use_block calls,
                       toolCalls = calls,
                       stopReason = (if finish_reason choice = ''tool_calls''
                                     then ''tool_use'' else finish_reason choice)\<rparr>))"

section \<open>Agent loop (nodes/agentLoop.ts)\<close>

text \<open>Decimal rendering of a number in a template string.\<close>

definition digit :: "nat \<Rightarrow> char" where
  "digit n = ''0123456789'' ! (n mod 10)"

function show_nat :: "nat \<Rightarrow> string" where
  "show_nat n = (if n < 10 then [digit n] else show_nat (n div 10) @ [digit n])"
  by pat_completeness auto
termination
  by (relation "measure id") auto

definition show_int :: "int \<Rightarrow> string" where
  "show_int i = (if i < 0 then ''-'' @ show_nat (nat (- i)) else show_nat (nat i))"

text \<open>
  \<^verbatim>\<open>${n}\<close> for a number: the decimal digits of a whole number below
  \<open>10\<^sup>2\<^sup>1\<close>, the names of the infinities and of \<^verbatim>\<open>NaN\<close>, and the platform's
  conversion for every other value.
\<close>

definition number_text :: "'j builtins \<Rightarrow> number \<Rightarrow> string" where
  "number_text b n =
     (case n of
        Finite x \<Rightarrow>
          if x = of_int \<lfloor>x\<rfloor> \<and> \<bar>x\<bar> < 10 ^ 21 then show_int \<lfloor>x\<rfloor> else Number_toString b x
      | PosInfinity \<Rightarrow> ''Infinity''
      | NegInfinity \<Rightarrow> ''-Infinity''
      | NaN \<Rightarrow> ''NaN'')"





record agent_config =
  provider :: string
  model :: string
  maxTokens :: int
  maxIterations :: number
  apiKey :: "string option"

text \<open>
  The provider's HTTP endpoint is the environment: given how many model calls
  came before, the key and the request body, it answers with a parsed body
  (\<^verbatim>\<open>response.ok\<close>), with a status and an error text, or \<^verbatim>\<open>fetch\<close> rejects.
\<close>

datatype 'a http = Ok 'a | NotOk int string | Failed string

record 'j providers =
  anthropic_api :: "nat \<Rightarrow> string \<Rightarrow> 'j AnthropicRequest \<Rightarrow> 'j AnthropicResponse http"
  openai_api :: "nat \<Rightarrow> string \<Rightarrow> 'j OpenAIRequest \<Rightarrow> OpenAIResponse http"

datatype 'j request = AnthropicCall "'j AnthropicRequest" | OpenAICall "'j OpenAIRequest"

text \<open>
  What the node publishes and what its subscribers may throw: the payloads of
  \<^verbatim>\<open>"iteration"\<close> and \<^verbatim>\<open>"data"\<close>, an \<^verbatim>\<open>Error\<close> with its message, or any
  other value.
\<close>

datatype 'j agent_event =
    Iteration_start "'j Message list"
  | Iteration_llm_response int "'j ContentBlock list" "'j ToolCall list" string
  | Iteration_tool_results int "ToolResult list"
  | Data_event string "'j ContentBlock list" "'j Message list" int string
  | Error_event string
  | Value 'j

text \<open>
  The closure variables of the node (\<^verbatim>\<open>listeners\<close>, \<^verbatim>\<open>messages\<close>,
  \<^verbatim>\<open>toolDefinitions\<close>, \<^verbatim>\<open>toolHandlers\<close>) and what the node has done so far: the
  events published with their payloads, the subscriber calls this caused, the
  requests sent to the provider, the functions called as tool handlers. The
  registry holds the subscribers registered with \<^verbatim>\<open>node.on\<close> by the users of the
  node; the handler that the node registers for \<^verbatim>\<open>"input"\<close> on itself is
  \<open>agent_on_input\<close> below, and the node publishes nothing on \<^verbatim>\<open>"input"\<close>.
\<close>

record 'j agent_state =
  listeners :: "'j agent_event listeners"
  conversation :: "'j Message list"
  toolDefinitions :: "'j ToolDefinition list"
  toolHandlers :: "'j tools"
  published :: "(string \<times> 'j agent_event) list"
  effects :: "'j agent_event effect list"
  requests :: "'j request list"
  handler_calls :: "(string \<times> 'j) list"



text \<open>
  \<^verbatim>\<open>node.emit(event, data)\<close> of the agent node, the same bare \<^verbatim>\<open>forEach\<close> as in
  the memory node: the publication is recorded, the subscribers are called in
  turn, and the first exception leaves \<^verbatim>\<open>emit\<close>. A subscriber is what it is for
  the event channel, a callback that returns or throws.
\<close>

definition publish ::
  "string \<Rightarrow> 'j agent_event \<Rightarrow> 'j agent_state \<Rightarrow> 'j agent_state \<times> 'j agent_event option" where
  "publish event d st =
     (case node_emit (listeners st) event d of
        (tr, x) \<Rightarrow> (st\<lparr>published := published st @ [(event, d)], effects := effects st @ tr\<rparr>, x))"

definition callAnthropic ::
  "'j providers \<Rightarrow> agent_config \<Rightarrow> nat \<Rightarrow> string \<Rightarrow> 'j Message list \<Rightarrow> 'j ToolDefinition list
   \<Rightarrow> 'j request list \<times> (string + 'j llm_response)" where
  "callAnthropic env config n key msgs tools =
     (let requestBody = anthropic_request (model config) (maxTokens config) msgs tools
      in ([AnthropicCall requestBody],
          (case anthropic_api env n key requestBody of
             Failed e \<Rightarrow> Inl e
           | NotOk status errorText \<Rightarrow>
               Inl (''Anthropic API error: '' @ show_int status @ '' '' @ errorText)
           | Ok data \<Rightarrow> Inr (anthropic_inbound data))))"

definition callOpenAI ::
  "'j providers \<Rightarrow> 'j builtins \<Rightarrow> agent_config \<Rightarrow> nat \<Rightarrow> string \<Rightarrow> 'j Message list
   \<Rightarrow> 'j ToolDefinition list \<Rightarrow> 'j request list \<times> (string + 'j llm_response)" where
  "callOpenAI env b config n key msgs tools =
     (case openai_request b (model config) (maxTokens config) msgs tools of
        Inl e \<Rightarrow> ([], Inl e)
      | Inr requestBody \<Rightarrow>
          ([OpenAICall requestBody],
           (case openai_api env n key requestBody of
              Failed e \<Rightarrow> Inl e
            | NotOk status errorText \<Rightarrow>
                Inl (''OpenAI API error: '' @ show_int status @ '' '' @ errorText)
            | Ok data \<Rightarrow> convertOpenAIResponseToAnthropic b data)))"

definition callLLM ::
  "'j providers \<Rightarrow> 'j builtins \<Rightarrow> agent_config \<Rightarrow> nat \<Rightarrow> string \<Rightarrow> 'j Message list
   \<Rightarrow> 'j ToolDefinition list \<Rightarrow> 'j request list \<times> (string + 'j llm_response)" where
  "callLLM env b config n key msgs tools =
     (if provider config = ''anthropic'' then callAnthropic env config n key msgs tools
      else if provider config = ''openai'' then callOpenAI env b config n key msgs tools
      else ([], Inl (''Unknown provider: '' @ provider config)))"

text \<open>\<^verbatim>\<open>messages.push({ role: "assistant", content: llmResponse.content })\<close>\<close>

definition assistant_turn :: "'j llm_response \<Rightarrow> 'j Message" where
  "assistant_turn llmResponse = \<lparr>role = Assistant, content = Blocks (resp_content llmResponse)\<rparr>"

text \<open>\<^verbatim>\<open>messages.push({ role: "user", content: toolResultBlocks })\<close>\<close>

definition tool_results_turn :: "ToolResult list \<Rightarrow> 'j Message" where
  "tool_results_turn toolResults =
     \<lparr>role = User, content = Blocks (map tool_result_block toolResults)\<rparr>"

text \<open>
  How a stretch of the handler's \<^verbatim>\<open>try\<close> block ends: the loop goes on
  (\<open>Continue\<close>), the handler returns (\<open>Return\<close>), an exception is on its way to
  the \<^verbatim>\<open>catch\<close> (\<open>Throw\<close>), or the handler waits for a tool batch that does not
  complete (\<open>Await\<close>).
\<close>

datatype 'j flow =
    Continue "'j agent_state"
  | Return "'j agent_state"
  | Throw "'j agent_state" "'j agent_event"
  | Await "'j agent_state"


text \<open>A publication inside the \<^verbatim>\<open>try\<close> block, followed by the rest of the block.\<close>

definition publish_then ::
  "string \<Rightarrow> 'j agent_event \<Rightarrow> 'j agent_state \<Rightarrow> ('j agent_state \<Rightarrow> 'j flow) \<Rightarrow> 'j flow" where
  "publish_then event d st rest =
     (case publish event d st of (st', Some e) \<Rightarrow> Throw st' e | (st', None) \<Rightarrow> rest st')"

text \<open>The body of the \<^verbatim>\<open>while\<close> loop for the iteration number already incremented.\<close>

definition loop_body ::
  "'j providers \<Rightarrow> 'j builtins \<Rightarrow> agent_config \<Rightarrow> string \<Rightarrow> int \<Rightarrow> 'j agent_state \<Rightarrow> 'j flow" where
  "loop_body env b config key iteration st =
     (case callLLM env b config (length (requests st)) key (conversation st) (toolDefinitions st) of
        (sent, Inl error) \<Rightarrow> Throw (st\<lparr>requests := requests st @ sent\<rparr>) (Error_event error)
      | (sent, Inr llmResponse) \<Rightarrow>
          (let msgs = conversation st @ [assistant_turn llmResponse];
               st1 = st\<lparr>requests := requests st @ sent, conversation := msgs\<rparr>
           in publish_then ''iteration''
                (Iteration_llm_response iteration (resp_content llmResponse)
                   (toolCalls llmResponse) (stopReason llmResponse)) st1
                (\<lambda>st2.
                   if stopReason llmResponse \<noteq> ''tool_use'' \<or> length (toolCalls llmResponse) = 0
                   then publish_then ''data''
                          (Data_event (join newline (textBlocks (resp_content llmResponse)))
                             (resp_content llmResponse) msgs iteration (stopReason llmResponse))
                          st2 Return
                   else (let st3 = st2\<lparr>handler_calls := handler_calls st2 @
                                        invocations b (toolHandlers st2) (toolCalls llmResponse)\<rparr>
                         in case executeTools b (toolHandlers st2) (toolCalls llmResponse) of
                              None \<Rightarrow> Await st3
                            | Some toolResults \<Rightarrow>
                                publish_then ''iteration''
                                  (Iteration_tool_results iteration toolResults)
                                  (st3\<lparr>conversation := msgs @ [tool_results_turn toolResults]\<rparr>)
                                  Continue))))"

text \<open>
  \<^verbatim>\<open>iteration++\<close>. The counter is a number: it counts exactly up to \<open>2\<^sup>5\<^sup>3\<close>,
  where adding one no longer changes it.
\<close>

definition increment :: "int \<Rightarrow> int" where
  "increment i = (if i < 2 ^ 53 then i + 1 else i)"

text \<open>
  \<^verbatim>\<open>while (iteration < config.maxIterations) { iteration++; ... }\<close>, followed by
  the error published when the loop ends by its condition. The loop need not
  end: \<open>None\<close> is a loop that runs forever.
\<close>

partial_function (option) agent_while ::
  "'j providers \<Rightarrow> 'j builtins \<Rightarrow> agent_config \<Rightarrow> string \<Rightarrow> int \<Rightarrow> 'j agent_state \<Rightarrow> 'j flow option"
where
  "agent_while env b config key iteration st =
     (if less_than (of_int iteration) (maxIterations config)
      then (case loop_body env b config key (increment iteration) st of
              Continue st' \<Rightarrow> agent_while env b config key (increment iteration) st'
            | Return st' \<Rightarrow> Some (Return st')
            | Throw st' e \<Rightarrow> Some (Throw st' e)
            | Await st' \<Rightarrow> Some (Await st'))
      else Some (publish_then ''error''
                   (Error_event (''Max iterations ('' @ number_text b (maxIterations config)
                                  @ '') reached''))
                   st Return))"





subsection \<open>The round trip of a message through a provider's formats\<close>

text \<open>
  The text of a message: its string content, or its text blocks joined the way
  the code joins them (\<^verbatim>\<open>.filter(text).map(b => b.text).join("\n")\<close>).
\<close>

definition message_text :: "'j Message \<Rightarrow> string" where
  "message_text m = (case content m of Str s \<Rightarrow> s | Blocks bs \<Rightarrow> join newline (textBlocks bs))"

text \<open>
  The round trip of the specification sends a message through the outbound
  conversion and parses ``the corresponding provider response shape'' back. That
  shape is, for the OpenAI style, a response whose only choice carries the wire
  message, and for the Anthropic style a response whose content is the content of
  the wire message, a string standing for one text block. The message rebuilt from
  a parsed response is the turn the agent loop appends for it. A conversion that
  throws gives that exception as the only outcome.
\<close>

definition openai_echo :: "OpenAIMessage \<Rightarrow> OpenAIResponse" where
  "openai_echo w = \<lparr>choices = [\<lparr>message = w, finish_reason = ''stop''\<rparr>]\<rparr>"

definition anthropic_echo :: "'j Message \<Rightarrow> 'j AnthropicResponse" where
  "anthropic_echo m =
     \<lparr>r_content = (case content m of Str s \<Rightarrow> [Text s] | Blocks bs \<Rightarrow> bs),
      r_stop_reason = ''end_turn''\<rparr>"

definition roundtrip_openai :: "'j builtins \<Rightarrow> 'j Message \<Rightarrow> (string + 'j Message) list" where
  "roundtrip_openai b m =
     (case convertMessage b m of
        Inl e \<Rightarrow> [Inl e]
      | Inr ws \<Rightarrow>
          map (\<lambda>w. map_sum id assistant_turn (convertOpenAIResponseToAnthropic b (openai_echo w))) ws)"

definition roundtrip_anthropic :: "'j Message \<Rightarrow> 'j Message list" where
  "roundtrip_anthropic m =
     map (\<lambda>w. assistant_turn (anthropic_inbound (anthropic_echo w)))
       (a_messages (anthropic_request [] 0 [m] []))"

section \<open>Graph compiler (lib/tasks/index.ts)\<close>

record NodeInput =
  node :: string
  out :: string

text \<open>
  A value of the \<^verbatim>\<open>in\<close> map: one edge, a list of edges, or a value that is not
  an object. \<^verbatim>\<open>typeof value === "object"\<close> holds of an edge and of an array
  alike; \<^verbatim>\<open>value.node\<close> and \<^verbatim>\<open>value.out\<close> of an array are \<^verbatim>\<open>undefined\<close>.
\<close>

datatype in_value = Edge NodeInput | EdgeList "NodeInput list" | Primitive

fun is_object :: "in_value \<Rightarrow> bool" where
  "is_object (Edge e) = True"
| "is_object (EdgeList es) = True"
| "is_object Primitive = False"

fun isArray :: "in_value \<Rightarrow> bool" where
  "isArray (EdgeList es) = True"
| "isArray _ = False"

fun value_node :: "in_value \<Rightarrow> string option" where
  "value_node (Edge e) = Some (node e)"
| "value_node _ = None"

fun value_out :: "in_value \<Rightarrow> string option" where
  "value_out (Edge e) = Some (out e)"
| "value_out _ = None"

text \<open>A property key: \<^verbatim>\<open>undefined\<close> is converted to the string \<^verbatim>\<open>"undefined"\<close>.\<close>

definition property_key :: "string option \<Rightarrow> string" where
  "property_key k = (case k of None \<Rightarrow> ''undefined'' | Some s \<Rightarrow> s)"

record TaskNodeDescriptor =
  d_type :: string
  d_id :: "string option"
  d_in :: "(string \<times> in_value) list option"

text \<open>
  The table \<^verbatim>\<open>nodes/index.ts\<close>. A node is kept by its kind, which decides the
  methods it has: every kind but the output node has \<^verbatim>\<open>pipe\<close>.
\<close>

datatype node_kind =
  InputNode | OutputNode | FetchNode | ConfigNode | MemoryNode | LlmNode | ToolRouterNode
  | AgentLoopNode

definition nodeTypes :: "string \<rightharpoonup> node_kind" where
  "nodeTypes =
     [''input'' \<mapsto> InputNode, ''output'' \<mapsto> OutputNode, ''fetch'' \<mapsto> FetchNode,
      ''config'' \<mapsto> ConfigNode, ''memory'' \<mapsto> MemoryNode, ''llm'' \<mapsto> LlmNode,
      ''toolRouter'' \<mapsto> ToolRouterNode, ''agentLoop'' \<mapsto> AgentLoopNode]"

definition has_pipe :: "node_kind \<Rightarrow> bool" where
  "has_pipe k = (k \<noteq> OutputNode)"

datatype compile_error =
    NodeTypeNotFound string
  | PipeOfUndefined
  | PipeNotAFunction

text \<open>
  A forwarding subscription made by \<^verbatim>\<open>transformEvent\<close>: when \<^verbatim>\<open>producer\<close>
  publishes \<^verbatim>\<open>data\<close>, the accumulator of \<^verbatim>\<open>consumer\<close> gets
  \<^verbatim>\<open>event[in_key] = data[out_key]\<close> and is written to the consumer.
\<close>

record wire =
  producer :: string
  out_key :: "string option"
  consumer :: string
  in_key :: string

record compileContext =
  nodes :: "string \<rightharpoonup> node_kind"
  nodeTypeCounts :: "string \<rightharpoonup> nat"
  wires :: "wire list"

definition transformEvent ::
  "(string \<rightharpoonup> node_kind) \<Rightarrow> string \<Rightarrow> string \<Rightarrow> string option \<Rightarrow> string option
   \<Rightarrow> compile_error + wire" where
  "transformEvent ns inputNode inputKey outputNode outputKey =
     (case ns (property_key outputNode) of
        None \<Rightarrow> Inl PipeOfUndefined
      | Some k \<Rightarrow>
          if has_pipe k
          then Inr \<lparr>producer = property_key outputNode, out_key = outputKey,
                    consumer = inputNode, in_key = inputKey\<rparr>
          else Inl PipeNotAFunction)"

text \<open>The first \<^verbatim>\<open>forEach\<close>: instantiate each node and give it an id.\<close>

fun instantiate ::
  "TaskNodeDescriptor list \<Rightarrow> compileContext
   \<Rightarrow> compile_error + (compileContext \<times> TaskNodeDescriptor list)" where
  "instantiate [] ctx = Inr (ctx, [])"
| "instantiate (d # ds) ctx =
     (case nodeTypes (d_type d) of
        None \<Rightarrow> Inl (NodeTypeNotFound (d_type d))
      | Some k \<Rightarrow>
          (let count = (case nodeTypeCounts ctx (d_type d) of None \<Rightarrow> 0 | Some c \<Rightarrow> c) + 1;
               ident = (case d_id d of
                          None \<Rightarrow> d_type d @ ''-'' @ show_nat count
                        | Some i \<Rightarrow> if i \<noteq> [] then i else d_type d @ ''-'' @ show_nat count);
               ctx' = ctx\<lparr>nodes := (nodes ctx)(ident \<mapsto> k),
                          nodeTypeCounts := (nodeTypeCounts ctx)(d_type d \<mapsto> count)\<rparr>
           in case instantiate ds ctx' of
                Inl e \<Rightarrow> Inl e
              | Inr (ctx'', ds') \<Rightarrow> Inr (ctx'', d\<lparr>d_id := Some ident\<rparr> # ds')))"

text \<open>\<^verbatim>\<open>value.forEach((v) => transformEvent(...))\<close> of the array branch.\<close>

fun wire_list ::
  "(string \<rightharpoonup> node_kind) \<Rightarrow> string \<Rightarrow> string \<Rightarrow> NodeInput list \<Rightarrow> compile_error + wire list" where
  "wire_list ns inputNode key [] = Inr []"
| "wire_list ns inputNode key (v # vs) =
     (case transformEvent ns inputNode key (Some (node v)) (Some (out v)) of
        Inl e \<Rightarrow> Inl e
      | Inr w \<Rightarrow> (case wire_list ns inputNode key vs of Inl e \<Rightarrow> Inl e | Inr ws \<Rightarrow> Inr (w # ws)))"

text \<open>
  The callback over one entry of the \<^verbatim>\<open>in\<close> map: first the branch under
  \<^verbatim>\<open>typeof value === "object"\<close>, then the branch under \<^verbatim>\<open>Array.isArray(value)\<close>.
\<close>

definition wire_entry ::
  "(string \<rightharpoonup> node_kind) \<Rightarrow> string \<Rightarrow> string \<times> in_value \<Rightarrow> compile_error + wire list" where
  "wire_entry ns inputNode entry =
     (case entry of (key, v) \<Rightarrow>
        (case (if is_object v
               then (case transformEvent ns inputNode key (value_node v) (value_out v) of
                       Inl e \<Rightarrow> Inl e | Inr w \<Rightarrow> Inr [w])
               else Inr []) of
           Inl e \<Rightarrow> Inl e
         | Inr ws1 \<Rightarrow>
             (case (if isArray v
                    then wire_list ns inputNode key (case v of EdgeList es \<Rightarrow> es | _ \<Rightarrow> [])
                    else Inr []) of
                Inl e \<Rightarrow> Inl e
              | Inr ws2 \<Rightarrow> Inr (ws1 @ ws2))))"

fun wire_entries ::
  "(string \<rightharpoonup> node_kind) \<Rightarrow> string \<Rightarrow> (string \<times> in_value) list \<Rightarrow> compile_error + wire list" where
  "wire_entries ns inputNode [] = Inr []"
| "wire_entries ns inputNode (entry # entries) =
     (case wire_entry ns inputNode entry of
        Inl e \<Rightarrow> Inl e
      | Inr ws \<Rightarrow>
          (case wire_entries ns inputNode entries of Inl e \<Rightarrow> Inl e | Inr ws' \<Rightarrow> Inr (ws @ ws')))"

text \<open>The second \<^verbatim>\<open>forEach\<close>, over the descriptors that have an \<^verbatim>\<open>in\<close> map.\<close>

fun connect :: "(string \<rightharpoonup> node_kind) \<Rightarrow> TaskNodeDescriptor list \<Rightarrow> compile_error + wire list" where
  "connect ns [] = Inr []"
| "connect ns (d # ds) =
     (case d_in d of
        None \<Rightarrow> connect ns ds
      | Some entries \<Rightarrow>
          (case wire_entries ns (property_key (d_id d)) entries of
             Inl e \<Rightarrow> Inl e
           | Inr ws \<Rightarrow> (case connect ns ds of Inl e \<Rightarrow> Inl e | Inr ws' \<Rightarrow> Inr (ws @ ws'))))"

definition compile :: "TaskNodeDescriptor list \<Rightarrow> compile_error + compileContext" where
  "compile workflow =
     (case instantiate workflow \<lparr>nodes = Map.empty, nodeTypeCounts = Map.empty, wires = []\<rparr> of
        Inl e \<Rightarrow> Inl e
      | Inr (ctx, ds) \<Rightarrow>
          (case connect (nodes ctx) ds of
             Inl e \<Rightarrow> Inl e
           | Inr ws \<Rightarrow> Inr (ctx\<lparr>wires := ws\<rparr>)))"

section \<open>Concrete scenarios\<close>

text \<open>Subscribers that return, and subscribers that throw a given value.\<close>

definition quiet :: "nat \<Rightarrow> 'd handler" where
  "quiet i = \<lparr>hid = i, run = always Returned\<rparr>"

definition throwing :: "nat \<Rightarrow> 'd \<Rightarrow> 'd handler" where
  "throwing i e = \<lparr>hid = i, run = always (Threw e)\<rparr>"

text \<open>
  The channel of the emitter test: a throwing and a returning subscriber of
  \<^verbatim>\<open>test\<close>, and a subscriber of \<^verbatim>\<open>error\<close>.
\<close>

definition test_channel :: "nat listeners" where
  "test_channel = on ''error'' (quiet 3) (on ''test'' (quiet 2) (on ''test'' (throwing 1 7) Map.empty))"

definition hello :: "nat Message" where
  "hello = \<lparr>role = User, content = Str ''Hello''\<rparr>"

text \<open>A store without configuration, with the same three subscribers on \<^verbatim>\<open>data\<close> and \<^verbatim>\<open>error\<close>.\<close>

definition watched_memory :: "nat memory_node" where
  "watched_memory =
     memory_calls [Subscribe ''data'' (throwing 1 (Other 7)), Subscribe ''data'' (quiet 2),
                   Subscribe ''error'' (quiet 3)]
       (memory \<lparr>maxMessages = None, systemPrompt = None\<rparr>)"

text \<open>The store of the truncation test and its four messages.\<close>

definition bounded_config :: MemoryConfig where
  "bounded_config = \<lparr>maxMessages = Some (Finite 3), systemPrompt = Some ''System message''\<rparr>"

definition four_messages :: "nat Message list" where
  "four_messages =
     [\<lparr>role = User, content = Str ''Message 1''\<rparr>, \<lparr>role = Assistant, content = Str ''Response 1''\<rparr>,
      \<lparr>role = User, content = Str ''Message 2''\<rparr>, \<lparr>role = Assistant, content = Str ''Response 2''\<rparr>]"

text \<open>A store without a configured system prompt that is handed a system-role message.\<close>

definition plain_config :: MemoryConfig where
  "plain_config = \<lparr>maxMessages = None, systemPrompt = None\<rparr>"

definition late_system :: "nat Message" where
  "late_system = \<lparr>role = System, content = Str ''Be brief''\<rparr>"

text \<open>A store configured with \<^verbatim>\<open>maxMessages: 2.5\<close> and no system prompt.\<close>

definition fractional_config :: MemoryConfig where
  "fractional_config = \<lparr>maxMessages = Some (Finite (5 / 2)), systemPrompt = None\<rparr>"

text \<open>
  The platform functions on JSON values that are natural numbers; numbers are
  converted to strings with one decimal digit, and the messages of the
  exceptions are those of V8.
\<close>

definition scenario_builtins :: "nat builtins" where
  "scenario_builtins =
     \<lparr>JSON_stringify = (\<lambda>v. Json (show_nat v)),
      JSON_parse = (\<lambda>s. Some (length s)),
      String_of = show_nat,
      Number_toString = (\<lambda>x. show_int \<lfloor>x\<rfloor> @ ''.'' @ show_int \<lfloor>(x - of_int \<lfloor>x\<rfloor>) * 10\<rfloor>),
      not_callable = ''handler is not a function'',
      no_receiver = (\<lambda>n. ''Cannot convert undefined or null to object'')\<rparr>"

text \<open>
  Tools for a batch that meets every case of a dispatch: a slow handler that
  returns a string, one that returns a value to be serialised, one that throws
  an \<^verbatim>\<open>Error\<close>, one that throws a value that is not an \<^verbatim>\<open>Error\<close>; the fifth
  call names a tool that is not registered.
\<close>

definition settles :: "nat \<Rightarrow> 'j settled \<Rightarrow> 'j ToolHandler" where
  "settles t s inp = \<lparr>latency = t, settled = s\<rparr>"

definition scenario_tools :: "nat tools" where
  "scenario_tools =
     [''search'' \<mapsto> settles 50 (Fulfilled (StringValue ''found'')),
      ''count'' \<mapsto> settles 20 (Fulfilled (JsonValue 42)),
      ''crash'' \<mapsto> settles 1 (Rejected (ErrorObject ''Tool crashed!'')),
      ''reject'' \<mapsto> settles 5 (Rejected (NonError 7))]"

definition tool_call :: "string \<Rightarrow> string \<Rightarrow> nat ToolCall" where
  "tool_call i n = \<lparr>call_id = i, call_name = n, call_input = 0\<rparr>"

definition scenario_calls :: "nat ToolCall list" where
  "scenario_calls =
     [tool_call ''call-1'' ''search'', tool_call ''call-2'' ''count'', tool_call ''call-3'' ''crash'',
      tool_call ''call-4'' ''reject'', tool_call ''call-5'' ''missing'']"

text \<open>
  A batch of two calls whose names are not registered: \<^verbatim>\<open>toString\<close>, and
  \<^verbatim>\<open>missing\<close>.
\<close>

definition unregistered_calls :: "nat ToolCall list" where
  "unregistered_calls = [tool_call ''call-1'' ''toString'', tool_call ''call-2'' ''missing'']"

text \<open>
  A provider that answers every request with one call of the crashing tool and
  the stop reason \<^verbatim>\<open>tool_use\<close>, and an agent configured with \<^verbatim>\<open>maxIterations: 3\<close>.
\<close>

definition tool_use_reply :: "nat AnthropicResponse" where
  "tool_use_reply = \<lparr>r_content = [ToolUse ''toolu_1'' ''crash'' 0], r_stop_reason = ''tool_use''\<rparr>"







text \<open>
  The workflow of the compiler test (an input node feeding an output node through
  a single edge), and the same workflow with the edge given as a one-element list.
\<close>

definition single_edge_workflow :: "TaskNodeDescriptor list" where
  "single_edge_workflow =
     [\<lparr>d_type = ''input'', d_id = Some ''input1'', d_in = None\<rparr>,
      \<lparr>d_type = ''output'', d_id = Some ''output1'',
       d_in = Some [(''data'', Edge \<lparr>node = ''input1'', out = ''data''\<rparr>)]\<rparr>]"

definition edge_list_workflow :: "TaskNodeDescriptor list" where
  "edge_list_workflow =
     [\<lparr>d_type = ''input'', d_id = Some ''input1'', d_in = None\<rparr>,
      \<lparr>d_type = ''output'', d_id = Some ''output1'',
       d_in = Some [(''data'', EdgeList [\<lparr>node = ''input1'', out = ''data''\<rparr>])]\<rparr>]"

text \<open>A conversation with two system messages, the last one with empty content.\<close>

definition two_system_messages :: "nat Message list" where
  "two_system_messages =
     [\<lparr>role = System, content = Str ''Be brief''\<rparr>, hello, \<lparr>role = System, content = Str ''''\<rparr>]"

section \<open>Properties of the event channel\<close>

lemma fst_after [simp]: "fst (after tr r) = tr @ fst r"
  by (simp add: after_def)

lemma snd_after [simp]: "snd (after tr r) = snd r"
  by (simp add: after_def)

lemma emit_error_returns: "snd (emit_handlers ls ''error'' d hs) = None"
  by (induction hs) (auto split: outcome.splits)

lemma emit_handlers_Returned:
  "run h d = Returned \<Longrightarrow>
   emit_handlers ls ev d (h # hs) = after [Called (hid h) ev d] (emit_handlers ls ev d hs)"
  by simp

lemma emit_handlers_error_Threw:
  "run h d = Threw e \<Longrightarrow>
   emit_handlers ls ''error'' d (h # hs) =
     after [Called (hid h) ''error'' d, ConsoleError ''error'' e] (emit_handlers ls ''error'' d hs)"
  by simp

lemma emit_handlers_nested:
  "ev \<noteq> ''error'' \<Longrightarrow> run h d = Threw e \<Longrightarrow>
   emit_handlers ls ev d (h # hs) =
     after (Called (hid h) ev d # fst (emit_handlers ls ''error'' e (registered ls ''error'')))
       (emit_handlers ls ev d hs)"
  using emit_error_returns [of ls e "registered ls ''error''"]
  by (cases "emit_handlers ls ''error'' e (registered ls ''error'')") auto

lemmas emit_handlers_Cons = emit_handlers_Returned emit_handlers_error_Threw emit_handlers_nested

lemma emit_handlers_returns: "snd (emit_handlers ls event d hs) = None"
proof (induction hs)
  case Nil
  show ?case by simp
next
  case (Cons h hs)
  then show ?case
    by (cases "run h d"; cases "event = ''error''")
       (simp_all add: emit_handlers_Cons del: emit_handlers.simps)
qed

lemma emit_handlers_calls_all:
  "h \<in> set hs \<Longrightarrow> Called (hid h) event d \<in> set (fst (emit_handlers ls event d hs))"
proof (induction hs)
  case Nil
  then show ?case by simp
next
  case (Cons a hs)
  then show ?case
    by (cases "run a d"; cases "event = ''error''")
       (auto simp add: emit_handlers_Cons simp del: emit_handlers.simps)
qed

lemma emit_handlers_republishes:
  "h \<in> set hs \<Longrightarrow> run h d = Threw e \<Longrightarrow> event \<noteq> ''error'' \<Longrightarrow>
   set (fst (emit ls ''error'' e)) \<subseteq> set (fst (emit_handlers ls event d hs))"
proof (induction hs)
  case Nil
  then show ?case by simp
next
  case (Cons a hs)
  then show ?case
    by (cases "run a d")
       (auto simp add: emit_handlers_Cons emit_def simp del: emit_handlers.simps)
qed

lemma emit_handlers_logs:
  "h \<in> set hs \<Longrightarrow> run h d = Threw e \<Longrightarrow>
   ConsoleError ''error'' e \<in> set (fst (emit_handlers ls ''error'' d hs))"
  by (induction hs) (auto split: outcome.splits)

text \<open>
  The channel made by \<^verbatim>\<open>eventEmitter()\<close> isolates its handlers. Publishing
  an event always returns to the publisher; every handler registered for the event
  is called with the payload, also when an earlier handler throws; what a handler
  of an event other than \<^verbatim>\<open>error\<close> throws is published on \<^verbatim>\<open>error\<close>, the whole
  of that publication taking place inside the first; what a handler of
  \<^verbatim>\<open>error\<close> throws is written to the console.
\<close>

theorem eventEmitter_isolates_handlers:
  "snd (emit ls event d) = None \<and>
   (\<forall>h \<in> set (registered ls event). Called (hid h) event d \<in> set (fst (emit ls event d))) \<and>
   (\<forall>h \<in> set (registered ls event). \<forall>e. run h d = Threw e \<and> event \<noteq> ''error'' \<longrightarrow>
      set (fst (emit ls ''error'' e)) \<subseteq> set (fst (emit ls event d))) \<and>
   (\<forall>h \<in> set (registered ls ''error''). \<forall>e. run h d = Threw e \<longrightarrow>
      ConsoleError ''error'' e \<in> set (fst (emit ls ''error'' d)))"
proof (intro conjI ballI allI impI)
  show "snd (emit ls event d) = None"
    by (simp add: emit_def emit_handlers_returns)
next
  fix h assume "h \<in> set (registered ls event)"
  then show "Called (hid h) event d \<in> set (fst (emit ls event d))"
    by (simp add: emit_def emit_handlers_calls_all)
next
  fix h e assume "h \<in> set (registered ls event)" "run h d = Threw e \<and> event \<noteq> ''error''"
  then show "set (fst (emit ls ''error'' e)) \<subseteq> set (fst (emit ls event d))"
    using emit_handlers_republishes [of h "registered ls event" d e event ls]
    by (simp add: emit_def)
next
  fix h e assume "h \<in> set (registered ls ''error'')" "run h d = Threw e"
  then show "ConsoleError ''error'' e \<in> set (fst (emit ls ''error'' d))"
    by (simp add: emit_def emit_handlers_logs)
qed

lemma registered_test_channel:
  "registered test_channel ''test'' = [throwing 1 7, quiet 2]"
  "registered test_channel ''error'' = [quiet 3]"
  by (simp_all add: test_channel_def on_def registered_def)

theorem eventEmitter_isolates_handlers_witness:
  "snd (emit test_channel ''test'' 0) = None \<and>
   Called 2 ''test'' 0 \<in> set (fst (emit test_channel ''test'' 0)) \<and>
   Called 3 ''error'' 7 \<in> set (fst (emit test_channel ''test'' 0))"
proof -
  have t: "throwing 1 7 \<in> set (registered test_channel ''test'')"
    and q: "quiet 2 \<in> set (registered test_channel ''test'')"
    by (simp_all add: registered_test_channel)
  have thrown: "run (throwing 1 7) (0::nat) = Threw 7 \<and> ''test'' \<noteq> ''error''"
    by (simp add: throwing_def always_def)
  have e: "fst (emit test_channel ''error'' 7) = [Called 3 ''error'' 7]"
    by (simp add: emit_def registered_test_channel quiet_def always_def)
  from eventEmitter_isolates_handlers [of test_channel "''test''" 0] t q thrown e
  show ?thesis
    by (auto simp: quiet_def)
qed

text \<open>
  C4 claims this isolation for every subscriber on every component. The memory
  node does not use \<^verbatim>\<open>eventEmitter()\<close>: its own \<^verbatim>\<open>emit\<close> is a bare
  \<^verbatim>\<open>forEach\<close>. On a store whose first subscriber of \<^verbatim>\<open>data\<close> throws,
  \<^verbatim>\<open>addMessage\<close> stores the message and calls that subscriber only: the second
  subscriber of \<^verbatim>\<open>data\<close> is not called, nothing is published on \<^verbatim>\<open>error\<close>,
  whose subscriber is not called either, and the exception leaves \<^verbatim>\<open>addMessage\<close>.
\<close>

theorem C4_memory_emit_stops_at_throwing_handler:
  "snd (addMessage hello watched_memory)
     = ([Called 1 ''data'' (MessagesData [hello])], Some (Other 7)) \<and>
   getMessages (fst (addMessage hello watched_memory)) = [hello] \<and>
   map hid (registered (mem_listeners watched_memory) ''data'') = [1, 2] \<and>
   map hid (registered (mem_listeners watched_memory) ''error'') = [3]"
  by (simp add: addMessage_def watched_memory_def memory_calls_def mem_on_def memory_def
      retain_def node_emit_def on_def registered_def throwing_def quiet_def always_def Let_def
      getMessages_def)

section \<open>Properties of the input node\<close>

lemma input_step_in_status: "in_status (input_step c n) = in_status n"
  by (cases c) simp_all

lemma input_calls_in_status: "in_status (input_calls cs n) = in_status n"
  unfolding input_calls_def
  by (induction cs arbitrary: n) (simp_all add: input_step_in_status)

lemma input_calls_snoc: "input_calls (cs @ [c]) n = input_step c (input_calls cs n)"
  by (simp add: input_calls_def)

text \<open>
  C10. Whatever methods are called on a node returned by \<^verbatim>\<open>input()\<close>, among them
  \<^verbatim>\<open>resume\<close>, \<^verbatim>\<open>pause\<close> and \<^verbatim>\<open>pipe\<close>, the \<^verbatim>\<open>status\<close> field of the node
  stays \<^verbatim>\<open>"paused"\<close>: \<^verbatim>\<open>resume\<close> and \<^verbatim>\<open>pause\<close> assign the status of the inner
  \<^verbatim>\<open>readStream\<close> object, which does become \<^verbatim>\<open>"open"\<close> and \<^verbatim>\<open>"paused"\<close>.
  \<^verbatim>\<open>trigger(data)\<close> calls every handler subscribed to \<^verbatim>\<open>data\<close> with the data, and
  returns.
\<close>

theorem C10_input_status_stays_paused:
  "in_status (input_calls cs input) = Paused \<and>
   rs_status (inner (input_calls (cs @ [Resume]) input)) = Open \<and>
   rs_status (inner (input_calls (cs @ [Pause]) input)) = Paused \<and>
   in_status (input_calls (cs @ [Resume]) input) = Paused \<and>
   (\<forall>h \<in> set (registered (rs_listeners (inner (input_calls cs input))) ''data'').
      Called (hid h) ''data'' d \<in> set (fst (trigger d (input_calls cs input)))) \<and>
   snd (trigger d (input_calls cs input)) = None"
proof -
  have "in_status (input :: 'a input_node) = Paused"
    by (simp add: input_def readStream_def)
  then have status: "\<And>cs. in_status (input_calls cs (input :: 'a input_node)) = Paused"
    by (simp add: input_calls_in_status)
  have "\<forall>h \<in> set (registered (rs_listeners (inner (input_calls cs input))) ''data'').
      Called (hid h) ''data'' d \<in> set (fst (trigger d (input_calls cs input)))"
    by (simp add: trigger_def emit_def emit_handlers_calls_all)
  moreover have "snd (trigger d (input_calls cs input)) = None"
    by (simp add: trigger_def emit_def emit_handlers_returns)
  ultimately show ?thesis
    using status by (simp add: input_calls_snoc rs_resume_def rs_pause_def)
qed

theorem C10_input_status_stays_paused_witness:
  "in_status (input_calls [On ''data'' (quiet 1), Resume, On ''data'' (quiet 2), Pause, Resume]
                (input :: nat input_node)) = Paused \<and>
   rs_status (inner (input_calls [On ''data'' (quiet 1), Resume, On ''data'' (quiet 2), Pause, Resume]
                (input :: nat input_node))) = Open \<and>
   Called 2 ''data'' (5::nat) \<in> set (fst (trigger 5 (input_calls [On ''data'' (quiet 1), Resume, On ''data'' (quiet 2), Pause] input)))"
proof -
  let ?cs = "[On ''data'' (quiet 1), Resume, On ''data'' (quiet 2), Pause] :: nat input_call list"
  have member: "quiet 2 \<in> set (registered (rs_listeners (inner (input_calls ?cs input))) ''data'')"
    by (simp add: input_calls_def input_def readStream_def rs_resume_def rs_pause_def on_def registered_def)
  have ident: "hid (quiet 2 :: nat handler) = 2"
    by (simp add: quiet_def)
  note inst = C10_input_status_stays_paused [of ?cs "5::nat"]
  from inst have a: "in_status (input_calls (?cs @ [Resume]) input) = Paused"
    and b: "rs_status (inner (input_calls (?cs @ [Resume]) input)) = Open"
    and c: "\<forall>h \<in> set (registered (rs_listeners (inner (input_calls ?cs input))) ''data'').
              Called (hid h) ''data'' 5 \<in> set (fst (trigger 5 (input_calls ?cs input)))"
    by blast+
  from c member have "Called (hid (quiet 2 :: nat handler)) ''data'' 5
      \<in> set (fst (trigger 5 (input_calls ?cs input)))"
    by blast
  with a b ident show ?thesis by simp
qed

section \<open>Properties of the conversation store\<close>

lemma floor_excess: "\<lfloor>real n - x\<rfloor> = int n - \<lceil>x\<rceil>"
  by linarith

lemma length_splice:
  "start + deleteCount \<le> length xs \<Longrightarrow> length (splice start deleteCount xs) = length xs - deleteCount"
  by (simp add: splice_def)

lemma retain_length:
  assumes "maxMessages cfg = Some (Finite x)" and "0 < x"
  shows "int (length (retain cfg ms)) \<le> \<lceil>x\<rceil>"
proof (cases "real (length ms) > x")
  case False
  then have "real (length ms) \<le> x" by simp
  then have "int (length ms) \<le> \<lceil>x\<rceil>" by (simp add: le_ceiling_iff)
  with False assms show ?thesis
    by (simp add: retain_def greater_than_def)
next
  case True
  then have lower: "\<lceil>x\<rceil> \<le> int (length ms)" by (simp add: ceiling_le_iff)
  from assms(2) have pos: "1 \<le> \<lceil>x\<rceil>" by (simp add: one_le_ceiling)
  define k where "k = nat (int (length ms) - \<lceil>x\<rceil>)"
  have "min (nat (int (length ms) - \<lceil>x\<rceil>)) (length ms) = nat (int (length ms) - \<lceil>x\<rceil>)"
    using lower pos by linarith
  then have count: "to_count (minus_from (real (length ms)) (Finite x)) (length ms) = k"
    by (simp add: to_count_def minus_from_def floor_excess k_def)
  define start where "start = (if first_is_system ms then 1 else 0::nat)"
  have "start \<le> 1" by (simp add: start_def)
  then have "start + k \<le> length ms"
    unfolding k_def using lower pos by linarith
  then have "length (splice start k ms) = length ms - k"
    by (rule length_splice)
  moreover have "retain cfg ms = splice start k ms"
    using True assms by (simp add: retain_def greater_than_def truthy_def count start_def Let_def)
  ultimately have "length (retain cfg ms) = length ms - k" by simp
  then show ?thesis
    unfolding k_def using lower pos by linarith
qed

lemma retain_keeps_system:
  "role m = System \<Longrightarrow> \<exists>rest. retain cfg (m # ms) = m # rest"
  by (auto simp: retain_def splice_def Let_def first_is_system_def split: option.splits)

text \<open>The set configuration never changes; the state is the message list.\<close>

lemma mem_set_step [simp]: "mem_set (memory_step c n) = mem_set n"
  by (cases c) (simp_all add: addMessage_def clear_def mem_on_def Let_def)

lemma mem_set_calls [simp]: "mem_set (memory_calls cs n) = mem_set n"
  unfolding memory_calls_def by (induction cs arbitrary: n) simp_all

lemma memory_calls_snoc: "memory_calls (cs @ [c]) n = memory_step c (memory_calls cs n)"
  by (simp add: memory_calls_def)

lemma messages_step_bound:
  assumes "maxMessages (mem_set n) = Some (Finite x)" "0 < x" "int (length (messages n)) \<le> \<lceil>x\<rceil>"
  shows "int (length (messages (memory_step c n))) \<le> \<lceil>x\<rceil>"
proof (cases c)
  case (AddMessage m)
  from retain_length [OF assms(1,2)] AddMessage show ?thesis
    by (simp add: addMessage_def Let_def)
next
  case Clear
  from assms(2) have "1 \<le> \<lceil>x\<rceil>" by (simp add: one_le_ceiling)
  with Clear show ?thesis
    by (auto simp: clear_def Let_def split: list.splits)
next
  case (Subscribe event h)
  with assms(3) show ?thesis by (simp add: mem_on_def)
qed

lemma messages_step_pinned:
  assumes "messages n = s # rest" "role s = System"
  shows "\<exists>rest'. messages (memory_step c n) = s # rest'"
proof (cases c)
  case (AddMessage m)
  from retain_keeps_system [OF assms(2), of "mem_set n" "rest @ [m]"] assms(1) AddMessage
  show ?thesis by (simp add: addMessage_def Let_def)
next
  case Clear
  with assms show ?thesis by (simp add: clear_def Let_def)
next
  case (Subscribe event h)
  with assms show ?thesis by (simp add: mem_on_def)
qed

lemma memory_calls_bound:
  assumes "maxMessages cfg = Some (Finite x)" "0 < x"
  shows "int (length (messages (memory_calls cs (memory cfg)))) \<le> \<lceil>x\<rceil>"
proof (induction cs rule: rev_induct)
  case Nil
  from assms(2) have "1 \<le> \<lceil>x\<rceil>" by (simp add: one_le_ceiling)
  then show ?case
    by (simp add: memory_calls_def memory_def split: option.splits)
next
  case (snoc c cs)
  have "maxMessages (mem_set (memory_calls cs (memory cfg))) = Some (Finite x)"
    using assms(1) by (simp add: memory_def)
  from messages_step_bound [OF this assms(2) snoc] show ?case
    by (simp add: memory_calls_snoc)
qed

lemma memory_calls_pinned:
  assumes "systemPrompt cfg = Some p" "p \<noteq> []"
  shows "\<exists>rest. messages (memory_calls cs (memory cfg)) = \<lparr>role = System, content = Str p\<rparr> # rest"
proof (induction cs rule: rev_induct)
  case Nil
  from assms show ?case by (simp add: memory_calls_def memory_def)
next
  case (snoc c cs)
  then obtain rest where "messages (memory_calls cs (memory cfg)) = \<lparr>role = System, content = Str p\<rparr> # rest"
    by blast
  from messages_step_pinned [OF this, of c] show ?case
    by (simp add: memory_calls_snoc)
qed

text \<open>
  C3 fails as stated: \<^verbatim>\<open>maxMessages\<close> is a number, and a positive bound need
  not be whole. A store configured with the bound \<open>2.5\<close> holds three messages
  after three calls of \<^verbatim>\<open>addMessage\<close>: the excess \<open>0.5\<close> is truncated to the
  count \<open>0\<close> by \<^verbatim>\<open>splice\<close>, which deletes nothing.
\<close>

theorem C3_fractional_bound_counterexample:
  "getMessages (memory_calls (map AddMessage (take 3 four_messages)) (memory fractional_config))
     = take 3 four_messages \<and>
   length (take 3 four_messages) = 3 \<and>
   maxMessages fractional_config = Some (Finite (5 / 2)) \<and> (0::real) < 5 / 2 \<and> (5 / 2 :: real) < 3"
  by (simp add: memory_calls_def memory_def fractional_config_def four_messages_def
      addMessage_def retain_def getMessages_def Let_def truthy_def greater_than_def
      minus_from_def to_count_def splice_def first_is_system_def)

text \<open>
  C3 (as amended). For a store configured with a positive finite bound \<open>x\<close>,
  after any sequence of calls (\<^verbatim>\<open>addMessage\<close>, and also \<^verbatim>\<open>clear\<close> and \<^verbatim>\<open>on\<close>)
  the number of stored messages is at most \<open>x\<close> rounded up to a whole number, hence
  at most \<open>x\<close> when \<open>x\<close> is whole; and if a system prompt was configured, whatever
  the bound, the first stored message is that system message.
\<close>

theorem C3_retention_bound_and_pinning:
  assumes "maxMessages cfg = Some (Finite x)" and "0 < x"
  shows "int (length (getMessages (memory_calls cs (memory cfg)))) \<le> \<lceil>x\<rceil> \<and>
         (x = of_int \<lceil>x\<rceil> \<longrightarrow> real (length (getMessages (memory_calls cs (memory cfg)))) \<le> x) \<and>
         (\<forall>cfg' p. systemPrompt cfg' = Some p \<and> p \<noteq> [] \<longrightarrow>
            (\<exists>rest. getMessages (memory_calls cs (memory cfg'))
                      = \<lparr>role = System, content = Str p\<rparr> # rest))"
proof -
  have bound: "int (length (getMessages (memory_calls cs (memory cfg)))) \<le> \<lceil>x\<rceil>"
    using memory_calls_bound [OF assms] by (simp add: getMessages_def)
  have "real (length (getMessages (memory_calls cs (memory cfg)))) \<le> x" if "x = of_int \<lceil>x\<rceil>"
  proof -
    have "real (length (getMessages (memory_calls cs (memory cfg)))) \<le> of_int \<lceil>x\<rceil>"
      using bound by (metis of_int_le_iff of_int_of_nat_eq)
    with that show ?thesis by simp
  qed
  with bound memory_calls_pinned show ?thesis
    by (auto simp: getMessages_def)
qed

theorem C3_retention_bound_and_pinning_witness:
  "int (length (getMessages (memory_calls (map AddMessage four_messages) (memory bounded_config)))) \<le> 3 \<and>
   real (length (getMessages (memory_calls (map AddMessage four_messages) (memory bounded_config)))) \<le> 3 \<and>
   (\<exists>rest. getMessages (memory_calls (map AddMessage four_messages) (memory bounded_config))
             = \<lparr>role = System, content = Str ''System message''\<rparr> # rest)"
proof -
  have a: "maxMessages bounded_config = Some (Finite 3)" and b: "(0::real) < 3"
    by (simp_all add: bounded_config_def)
  have c: "systemPrompt bounded_config = Some ''System message'' \<and> ''System message'' \<noteq> []"
    by (simp add: bounded_config_def)
  have d: "(3::real) = of_int \<lceil>3::real\<rceil>" by simp
  note inst = C3_retention_bound_and_pinning [OF a b, of "map AddMessage four_messages"]
  from inst have "int (length (getMessages (memory_calls (map AddMessage four_messages) (memory bounded_config)))) \<le> \<lceil>3::real\<rceil>"
    by (rule conjunct1)
  moreover from inst d have "real (length (getMessages (memory_calls (map AddMessage four_messages) (memory bounded_config)))) \<le> 3"
    by blast
  moreover from inst c have "\<exists>rest. getMessages (memory_calls (map AddMessage four_messages) (memory bounded_config))
             = \<lparr>role = System, content = Str ''System message''\<rparr> # rest"
    by blast
  ultimately show ?thesis by simp
qed

text \<open>
  C7 fails as stated: a store built without a system prompt, handed a
  system-role message as its first message, still holds that message after
  \<^verbatim>\<open>clear()\<close>.
\<close>

theorem C7_clear_counterexample:
  "getMessages (memory_calls [AddMessage late_system, AddMessage hello, Clear] (memory plain_config))
     = [late_system] \<and>
   systemPrompt plain_config = None"
  by (simp add: memory_calls_def memory_def plain_config_def late_system_def hello_def
      addMessage_def clear_def retain_def getMessages_def Let_def)

text \<open>
  C7 (as amended). Immediately after \<^verbatim>\<open>clear()\<close>, \<^verbatim>\<open>getMessages()\<close> returns the
  one-element list of the configured system message when a system prompt was
  configured at construction. When none was configured it returns the first
  stored message alone if that message has the role \<^verbatim>\<open>system\<close>, and the empty
  list otherwise. It never returns more than one message.
\<close>

theorem C7_clear_keeps_leading_system_message:
  "(\<forall>p. systemPrompt cfg = Some p \<and> p \<noteq> [] \<longrightarrow>
      getMessages (fst (clear (memory_calls cs (memory cfg)))) = [\<lparr>role = System, content = Str p\<rparr>]) \<and>
   getMessages (fst (clear n)) =
     (case messages n of [] \<Rightarrow> [] | m # rest \<Rightarrow> if role m = System then [m] else []) \<and>
   length (getMessages (fst (clear n))) \<le> 1"
proof (intro conjI allI impI)
  fix p assume "systemPrompt cfg = Some p \<and> p \<noteq> []"
  then obtain rest where
    "messages (memory_calls cs (memory cfg)) = \<lparr>role = System, content = Str p\<rparr> # rest"
    using memory_calls_pinned [of cfg p cs] by blast
  then show "getMessages (fst (clear (memory_calls cs (memory cfg)))) = [\<lparr>role = System, content = Str p\<rparr>]"
    by (simp add: clear_def getMessages_def Let_def)
next
  show "getMessages (fst (clear n)) =
     (case messages n of [] \<Rightarrow> [] | m # rest \<Rightarrow> if role m = System then [m] else [])"
    by (simp add: clear_def getMessages_def Let_def split: list.splits)
next
  show "length (getMessages (fst (clear n))) \<le> 1"
    by (simp add: clear_def getMessages_def Let_def split: list.splits)
qed

theorem C7_clear_keeps_leading_system_message_witness:
  "getMessages (fst (clear (memory_calls (map AddMessage four_messages) (memory bounded_config))))
     = [\<lparr>role = System, content = Str ''System message''\<rparr>] \<and>
   getMessages (fst (clear (memory_calls [AddMessage hello] (memory plain_config)))) = []"
proof -
  have "systemPrompt bounded_config = Some ''System message'' \<and> ''System message'' \<noteq> []"
    by (simp add: bounded_config_def)
  moreover have "messages (memory_calls [AddMessage hello] (memory plain_config)) = [hello]"
    by (simp add: memory_calls_def memory_def plain_config_def addMessage_def retain_def Let_def)
  moreover have "role hello = User" by (simp add: hello_def)
  ultimately show ?thesis
    using C7_clear_keeps_leading_system_message
            [of bounded_config "map AddMessage four_messages"
                "memory_calls [AddMessage hello] (memory plain_config)"]
    by simp
qed

section \<open>Properties of tool dispatch\<close>

lemma length_store_resolved [simp]:
  "length (store_resolved order vals slots) = length slots"
  by (induction order arbitrary: slots) simp_all

lemma store_resolved_nth:
  "i < length slots \<Longrightarrow>
   store_resolved order vals slots ! i = (if i \<in> set order then Some (vals ! i) else slots ! i)"
proof (induction order arbitrary: slots)
  case Nil
  then show ?case by simp
next
  case (Cons j order)
  then show ?case by (cases "i = j") (auto simp: nth_list_update)
qed

lemma all_filled_map_Some [simp]: "all_filled (map Some xs) = Some xs"
  by (induction xs) simp_all

lemma store_resolved_all:
  assumes "{0..<length vals} \<subseteq> set order"
  shows "store_resolved order vals (replicate (length vals) None) = map Some vals"
proof (rule nth_equalityI)
  show "length (store_resolved order vals (replicate (length vals) None)) = length (map Some vals)"
    by simp
next
  fix i
  assume "i < length (store_resolved order vals (replicate (length vals) None))"
  then have i: "i < length vals" by simp
  with assms have "i \<in> set order" by auto
  with i show "store_resolved order vals (replicate (length vals) None) ! i = map Some vals ! i"
    by (simp add: store_resolved_nth)
qed

lemma Promise_all_in_any_order:
  "{0..<length vals} \<subseteq> set order \<Longrightarrow> Promise_all_in order vals = Some vals"
  by (simp add: Promise_all_in_def store_resolved_all)

lemma set_completion_order: "set (completion_order delays) = {0..<length delays}"
  by (simp add: completion_order_def)

lemma Promise_all_resolves: "Promise_all promises = Some (map snd promises)"
  by (simp add: Promise_all_def Promise_all_in_any_order set_completion_order)

lemma executeTools_eq:
  "executeTools b tools tcs = Some (map (\<lambda>toolCall. resolved (run_tool_call b tools toolCall)) tcs)"
  by (simp add: executeTools_def Promise_all_resolves Let_def comp_def)

lemma toolRouter_input_results:
  "map_option results (toolRouter_input b tools (Some tcs))
     = Some (map (\<lambda>toolCall. resolved (run_tool_call b tools toolCall)) tcs)"
  by (simp add: toolRouter_input_def Promise_all_resolves Let_def comp_def)

lemma tool_use_id_settle_result: "tool_use_id (settle_result b i s) = i"
  by (simp add: settle_result_def split: settled.splits returned.splits stringified.splits)

lemma tool_use_id_run_tool_call:
  "tool_use_id (resolved (run_tool_call b tools toolCall)) = call_id toolCall"
  by (simp add: run_tool_call_def tool_use_id_settle_result Let_def split: property.splits)

text \<open>
  C1. A batch of \<open>N\<close> tool calls, dispatched by \<^verbatim>\<open>executeTools\<close> of the agent
  loop or by the input handler of the tool router, always produces a result
  array; both produce the same one; it has length \<open>N\<close> and its \<open>k\<close>-th result
  carries the id of the \<open>k\<close>-th call. The array does not depend on the handlers'
  latencies: it is what \<^verbatim>\<open>Promise.all\<close> gives for any order in which the
  promises of the batch resolve.
\<close>

theorem C1_results_follow_call_order:
  "\<exists>rs. executeTools b tools calls = Some rs \<and>
        map_option results (toolRouter_input b tools (Some calls)) = Some rs \<and>
        length rs = length calls \<and>
        (\<forall>k < length calls. tool_use_id (rs ! k) = call_id (calls ! k)) \<and>
        (\<forall>order. {0..<length calls} \<subseteq> set order \<longrightarrow>
           Promise_all_in order (map (\<lambda>toolCall. resolved (run_tool_call b tools toolCall)) calls)
             = Some rs)"
  by (simp add: executeTools_eq toolRouter_input_results tool_use_id_run_tool_call
      Promise_all_in_any_order)

theorem C1_results_follow_call_order_witness:
  "map_option (map tool_use_id) (executeTools scenario_builtins scenario_tools scenario_calls)
     = Some [''call-1'', ''call-2'', ''call-3'', ''call-4'', ''call-5''] \<and>
   map_option (map tool_use_id)
     (Promise_all_in [4, 2, 3, 1, 0]
        (map (\<lambda>toolCall. resolved (run_tool_call scenario_builtins scenario_tools toolCall)) scenario_calls))
     = Some [''call-1'', ''call-2'', ''call-3'', ''call-4'', ''call-5'']"
proof -
  have len: "length scenario_calls = 5"
    by (simp add: scenario_calls_def)
  have all: "{0..<length scenario_calls} \<subseteq> set [4, 2, 3, 1, 0::nat]"
    unfolding len by auto
  obtain rs where rs: "executeTools scenario_builtins scenario_tools scenario_calls = Some rs"
    "length rs = length scenario_calls"
    "\<forall>k < length scenario_calls. tool_use_id (rs ! k) = call_id (scenario_calls ! k)"
    "\<forall>order. {0..<length scenario_calls} \<subseteq> set order \<longrightarrow>
       Promise_all_in order
         (map (\<lambda>toolCall. resolved (run_tool_call scenario_builtins scenario_tools toolCall)) scenario_calls)
       = Some rs"
    using C1_results_follow_call_order [of scenario_builtins scenario_tools scenario_calls] by blast
  have ids: "map tool_use_id rs = map call_id scenario_calls"
    using rs(2,3) by (simp add: list_eq_iff_nth_eq)
  have "map call_id scenario_calls = [''call-1'', ''call-2'', ''call-3'', ''call-4'', ''call-5'']"
    by (simp add: scenario_calls_def tool_call_def)
  with ids rs(1) rs(4) all show ?thesis by simp
qed

text \<open>
  The outcomes of a dispatch, by what the lookup finds and by how the handler
  call settles. A name that is neither registered nor inherited gets the error
  result naming the tool, and nothing is called. A registered handler is called
  once with the input of the call; a rejection gives \<^verbatim>\<open>"Error: "\<close> followed by the
  message of the \<^verbatim>\<open>Error\<close> (or by \<^verbatim>\<open>String(error)\<close>), with \<^verbatim>\<open>is_error\<close>; a string
  is returned unchanged and another value as its JSON text, without \<^verbatim>\<open>is_error\<close>.
  A value without JSON text gives a result whose content is \<^verbatim>\<open>undefined\<close>, and a
  value that \<^verbatim>\<open>JSON.stringify\<close> throws on gives an error result.
\<close>

theorem dispatch_outcomes:
  "(get_property tools (call_name c) = Absent \<longrightarrow>
      resolved (run_tool_call b tools c)
        = \<lparr>tool_use_id = call_id c,
           result_content = Some (''Error: Tool '' @ quote @ call_name c @ quote @ '' not found''),
           is_error = Some True\<rparr> \<and>
      invoked (run_tool_call b tools c) = []) \<and>
   (\<forall>handler. tools (call_name c) = Some handler \<longrightarrow>
      invoked (run_tool_call b tools c) = [(call_name c, call_input c)] \<and>
      resolved (run_tool_call b tools c)
        = settle_result b (call_id c) (settled (handler (call_input c)))) \<and>
   settle_result b i (Rejected (ErrorObject msg))
     = \<lparr>tool_use_id = i, result_content = Some (''Error: '' @ msg), is_error = Some True\<rparr> \<and>
   settle_result b i (Rejected (NonError v))
     = \<lparr>tool_use_id = i, result_content = Some (''Error: '' @ String_of b v), is_error = Some True\<rparr> \<and>
   settle_result b i (Fulfilled (StringValue s))
     = \<lparr>tool_use_id = i, result_content = Some s, is_error = None\<rparr> \<and>
   settle_result b i (Fulfilled (JsonValue v))
     = (case JSON_stringify b v of
          Json s \<Rightarrow> \<lparr>tool_use_id = i, result_content = Some s, is_error = None\<rparr>
        | NoJson \<Rightarrow> \<lparr>tool_use_id = i, result_content = None, is_error = None\<rparr>
        | StringifyError e \<Rightarrow>
            \<lparr>tool_use_id = i, result_content = Some (''Error: '' @ e), is_error = Some True\<rparr>)"
  by (simp add: run_tool_call_def get_property_def settle_result_def error_message_def Let_def)

theorem dispatch_outcomes_witness:
  "map resolved (map (run_tool_call scenario_builtins scenario_tools) scenario_calls)
     = [\<lparr>tool_use_id = ''call-1'', result_content = Some ''found'', is_error = None\<rparr>,
        \<lparr>tool_use_id = ''call-2'', result_content = Some ''42'', is_error = None\<rparr>,
        \<lparr>tool_use_id = ''call-3'', result_content = Some ''Error: Tool crashed!'', is_error = Some True\<rparr>,
        \<lparr>tool_use_id = ''call-4'', result_content = Some ''Error: 7'', is_error = Some True\<rparr>,
        \<lparr>tool_use_id = ''call-5'',
         result_content = Some (''Error: Tool '' @ quote @ ''missing'' @ quote @ '' not found''),
         is_error = Some True\<rparr>]"
proof -
  have registered:
    "scenario_tools ''search'' = Some (settles 50 (Fulfilled (StringValue ''found'')))"
    "scenario_tools ''count'' = Some (settles 20 (Fulfilled (JsonValue 42)))"
    "scenario_tools ''crash'' = Some (settles 1 (Rejected (ErrorObject ''Tool crashed!'')))"
    "scenario_tools ''reject'' = Some (settles 5 (Rejected (NonError 7)))"
    "get_property scenario_tools ''missing'' = Absent"
    by (simp_all add: scenario_tools_def get_property_def Object_prototype_methods_def)
  have shown: "show_nat 42 = ''42''" "show_nat 7 = ''7''"
    by (simp_all add: digit_def)
  have builtins: "JSON_stringify scenario_builtins 42 = Json (show_nat 42)"
    "String_of scenario_builtins 7 = show_nat 7"
    by (simp_all add: scenario_builtins_def)
  have "resolved (run_tool_call scenario_builtins scenario_tools (tool_call ''call-1'' ''search''))
      = \<lparr>tool_use_id = ''call-1'', result_content = Some ''found'', is_error = None\<rparr>"
    using dispatch_outcomes [of scenario_tools "tool_call ''call-1'' ''search''" scenario_builtins
        "''call-1''" "''''" 0 "''found''"] registered(1)
    by (simp add: tool_call_def settles_def)
  moreover have "resolved (run_tool_call scenario_builtins scenario_tools (tool_call ''call-2'' ''count''))
      = \<lparr>tool_use_id = ''call-2'', result_content = Some ''42'', is_error = None\<rparr>"
    using dispatch_outcomes [of scenario_tools "tool_call ''call-2'' ''count''" scenario_builtins
        "''call-2''" "''''" 42 "''''"] registered(2) shown builtins
    by (simp add: tool_call_def settles_def)
  moreover have "resolved (run_tool_call scenario_builtins scenario_tools (tool_call ''call-3'' ''crash''))
      = \<lparr>tool_use_id = ''call-3'', result_content = Some ''Error: Tool crashed!'', is_error = Some True\<rparr>"
    using dispatch_outcomes [of scenario_tools "tool_call ''call-3'' ''crash''" scenario_builtins
        "''call-3''" "''Tool crashed!''" 0 "''''"] registered(3)
    by (simp add: tool_call_def settles_def)
  moreover have "resolved (run_tool_call scenario_builtins scenario_tools (tool_call ''call-4'' ''reject''))
      = \<lparr>tool_use_id = ''call-4'', result_content = Some ''Error: 7'', is_error = Some True\<rparr>"
    using dispatch_outcomes [of scenario_tools "tool_call ''call-4'' ''reject''" scenario_builtins
        "''call-4''" "''''" 7 "''''"] registered(4) shown builtins
    by (simp add: tool_call_def settles_def)
  moreover have "resolved (run_tool_call scenario_builtins scenario_tools (tool_call ''call-5'' ''missing''))
      = \<lparr>tool_use_id = ''call-5'',
         result_content = Some (''Error: Tool '' @ quote @ ''missing'' @ quote @ '' not found''),
         is_error = Some True\<rparr>"
    using dispatch_outcomes [of scenario_tools "tool_call ''call-5'' ''missing''" scenario_builtins
        "''call-5''" "''''" 0 "''''"] registered(5)
    by (simp add: tool_call_def)
  ultimately show ?thesis
    by (simp add: scenario_calls_def)
qed

text \<open>
  C5 claims that a call whose name has no registered handler gets an error
  result naming the missing tool, without anything being invoked. Both
  dispatchers read \<^verbatim>\<open>tools[toolCall.name]\<close> on a plain object and test the value
  found, not the registration. For the name \<^verbatim>\<open>toString\<close>, which is not
  registered, the lookup finds the function inherited from \<^verbatim>\<open>Object.prototype\<close>:
  it is called with the input of the call, and what it returns is the content of
  a result without \<^verbatim>\<open>is_error\<close>. The second call of the batch, whose name is
  neither registered nor inherited, gets the error result of the claim.
\<close>

theorem C5_inherited_name_is_invoked:
  "scenario_tools ''toString'' = None \<and> scenario_tools ''missing'' = None \<and>
   executeTools scenario_builtins scenario_tools unregistered_calls =
     Some [\<lparr>tool_use_id = ''call-1'', result_content = Some ''[object Undefined]'', is_error = None\<rparr>,
           \<lparr>tool_use_id = ''call-2'',
            result_content = Some (''Error: Tool '' @ quote @ ''missing'' @ quote @ '' not found''),
            is_error = Some True\<rparr>] \<and>
   map_option results (toolRouter_input scenario_builtins scenario_tools (Some unregistered_calls)) =
     executeTools scenario_builtins scenario_tools unregistered_calls \<and>
   invocations scenario_builtins scenario_tools unregistered_calls = [(''toString'', 0)]"
  by (simp add: executeTools_eq toolRouter_input_results invocations_def unregistered_calls_def
      tool_call_def run_tool_call_def get_property_def scenario_tools_def
      Object_prototype_methods_def inherited_call_def settle_result_def Let_def)

section \<open>Properties of the agent loop\<close>


text \<open>A publication to subscribers that all return: it is recorded, and nothing is thrown.\<close>

lemma node_emit_handlers_return:
  "(\<And>h. h \<in> set hs \<Longrightarrow> run h d = Returned) \<Longrightarrow> snd (node_emit_handlers event d hs) = None"
  by (induction hs) simp_all

lemma publish_return:
  assumes "\<forall>event hs d h. listeners st event = Some hs \<longrightarrow> h \<in> set hs \<longrightarrow> run h d = Returned"
  shows "publish event d st
           = (st\<lparr>published := published st @ [(event, d)],
                 effects := effects st @ fst (node_emit (listeners st) event d)\<rparr>, None)"
proof (cases "listeners st event")
  case None
  then show ?thesis by (simp add: publish_def node_emit_def)
next
  case (Some hs)
  then have "snd (node_emit_handlers event d hs) = None"
    using assms node_emit_handlers_return [of hs d event] by blast
  with Some show ?thesis
    by (cases "node_emit_handlers event d hs") (simp add: publish_def node_emit_def)
qed

lemma publish_then_return:
  assumes "\<forall>event hs d h. listeners st event = Some hs \<longrightarrow> h \<in> set hs \<longrightarrow> run h d = Returned"
  shows "publish_then event d st rest
           = rest (st\<lparr>published := published st @ [(event, d)],
                      effects := effects st @ fst (node_emit (listeners st) event d)\<rparr>)"
  by (simp add: publish_then_def publish_return [OF assms])

lemma loop_body_tool_use:
  assumes call: "callLLM env b config (length (requests st)) key (conversation st) (toolDefinitions st) = (sent, Inr r)"
    and tool_use: "stopReason r = ''tool_use''" "toolCalls r \<noteq> []"
    and quiet: "\<forall>event hs d h. listeners st event = Some hs \<longrightarrow> h \<in> set hs \<longrightarrow> run h d = Returned"
  shows "\<exists>st' rs. loop_body env b config key i st = Continue st' \<and>
           executeTools b (toolHandlers st) (toolCalls r) = Some rs \<and>
           requests st' = requests st @ sent \<and>
           conversation st' = conversation st @ [assistant_turn r, tool_results_turn rs] \<and>
           toolDefinitions st' = toolDefinitions st \<and> toolHandlers st' = toolHandlers st \<and>
           listeners st' = listeners st \<and>
           published st' = published st @
             [(''iteration'', Iteration_llm_response i (resp_content r) (toolCalls r) (stopReason r)),
              (''iteration'', Iteration_tool_results i rs)]"
  using assms by (simp add: loop_body_def Let_def executeTools_eq publish_then_return)






text \<open>
  Beyond \<open>2\<^sup>5\<^sup>3\<close> the counter no longer advances: under a limit that it cannot
  reach (a finite one above \<open>2\<^sup>5\<^sup>3\<close>, or \<^verbatim>\<open>Infinity\<close>), with a model that always
  asks for tools and subscribers that return, the loop never ends.
\<close>

lemma agent_while_never_ends:
  fixes env :: "'j providers" and st :: "'j agent_state"
  assumes limit: "\<forall>i \<le> 2 ^ 53. less_than (of_int i) (maxIterations config)"
    and tool_use: "\<And>n msgs tools. \<exists>r. snd (callLLM env b config n key msgs tools) = Inr r \<and>
                       stopReason r = ''tool_use'' \<and> toolCalls r \<noteq> []"
    and start: "iteration \<le> 2 ^ 53"
    and quiet: "\<forall>event hs d h. listeners st event = Some hs \<longrightarrow> h \<in> set hs \<longrightarrow> run h d = Returned"
  shows "agent_while env b config key iteration st = None"
proof -
  define P where "P = (\<lambda>env' b' config' key' (i::int) (s::'j agent_state) (y::'j flow).
      env' = env \<and> b' = b \<and> config' = config \<and> key' = key \<and> i \<le> 2 ^ 53 \<and>
      (\<forall>event hs d h. listeners s event = Some hs \<longrightarrow> h \<in> set hs \<longrightarrow> run h d = Returned)
      \<longrightarrow> False)"
  have step: "P env' b' config' key' i s y"
    if IH: "\<And>env' b' config' key' i s y. f env' b' config' key' i s = Some y \<Longrightarrow> P env' b' config' key' i s y"
    and eq: "(if less_than (of_int i) (maxIterations config')
              then (case loop_body env' b' config' key' (increment i) s of
                      Continue st' \<Rightarrow> f env' b' config' key' (increment i) st'
                    | Return st' \<Rightarrow> Some (Return st')
                    | Throw st' e \<Rightarrow> Some (Throw st' e)
                    | Await st' \<Rightarrow> Some (Await st'))
              else Some (publish_then ''error''
                           (Error_event (''Max iterations ('' @ number_text b' (maxIterations config')
                                          @ '') reached''))
                           s Return)) = Some y"
    for f env' b' config' key' i s y
    unfolding P_def
  proof
    assume inv: "env' = env \<and> b' = b \<and> config' = config \<and> key' = key \<and> i \<le> 2 ^ 53 \<and>
      (\<forall>event hs d h. listeners s event = Some hs \<longrightarrow> h \<in> set hs \<longrightarrow> run h d = Returned)"
    then have less: "less_than (of_int i) (maxIterations config')"
      using limit by blast
    have next_le: "increment i \<le> 2 ^ 53"
      using inv by (simp add: increment_def)
    obtain r where r: "snd (callLLM env b config (length (requests s)) key (conversation s) (toolDefinitions s)) = Inr r"
      "stopReason r = ''tool_use''" "toolCalls r \<noteq> []"
      using tool_use by blast
    define sent where "sent = fst (callLLM env b config (length (requests s)) key (conversation s) (toolDefinitions s))"
    have call: "callLLM env b config (length (requests s)) key (conversation s) (toolDefinitions s) = (sent, Inr r)"
      using r(1) sent_def by (metis prod.collapse)
    from inv have quiet_s: "\<forall>event hs d h. listeners s event = Some hs \<longrightarrow> h \<in> set hs \<longrightarrow> run h d = Returned"
      by blast
    obtain s' where s': "loop_body env b config key (increment i) s = Continue s'"
      "listeners s' = listeners s"
      using loop_body_tool_use [OF call r(2) r(3) quiet_s, of "increment i"] by blast
    from eq less s'(1) inv have "f env b config key (increment i) s' = Some y"
      by simp
    from IH [OF this, unfolded P_def] next_le quiet_s s'(2) show False
      by auto
  qed
  show ?thesis
  proof (rule ccontr)
    assume "agent_while env b config key iteration st \<noteq> None"
    then obtain y where "agent_while env b config key iteration st = Some y" by blast
    then have "P env b config key iteration st y"
      by (rule agent_while.raw_induct [where P = P, rotated]) (rule step)
    with start quiet show False unfolding P_def by blast
  qed
qed




section \<open>Properties of the protocol adapter\<close>

lemma extract_system_kept: "snd (extract_system ms p) = filter (\<lambda>m. role m \<noteq> System) ms"
  by (induction ms arbitrary: p) (simp_all add: case_prod_beta)

lemma extract_system_prompt:
  "fst (extract_system ms p) =
     (case rev (filter (\<lambda>m. role m = System) ms) of
        [] \<Rightarrow> p
      | s # ss \<Rightarrow> Some (system_text (content s)))"
proof (induction ms arbitrary: p)
  case Nil
  show ?case by simp
next
  case (Cons m ms)
  show ?case
  proof (cases "role m = System")
    case True
    then show ?thesis
      by (cases "rev (filter (\<lambda>m. role m = System) ms)") (simp_all add: Cons)
  next
    case False
    then show ?thesis
      by (simp add: Cons case_prod_beta)
  qed
qed

lemma anthropic_request_messages:
  "a_messages (anthropic_request mdl limit msgs tools) = filter (\<lambda>m. role m \<noteq> System) msgs"
  using extract_system_kept [of msgs None]
  by (cases "extract_system msgs None") (simp add: anthropic_request_def)

lemma anthropic_request_system:
  "a_system (anthropic_request mdl limit msgs tools) =
     (case rev (filter (\<lambda>m. role m = System) msgs) of
        [] \<Rightarrow> None
      | s # ss \<Rightarrow> if system_text (content s) = [] then None else Some (system_text (content s)))"
  using extract_system_prompt [of msgs None]
  by (cases "extract_system msgs None")
     (auto simp: anthropic_request_def split: list.splits option.splits)

text \<open>
  C9 fails as stated: when the last system message has empty content, the request
  has no \<^verbatim>\<open>system\<close> field at all (the assignment is under \<^verbatim>\<open>if (systemPrompt)\<close>),
  although an earlier system message had content.
\<close>

theorem C9_empty_last_system_counterexample:
  "a_system (anthropic_request ''claude'' 4096 two_system_messages []) = None \<and>
   a_messages (anthropic_request ''claude'' 4096 two_system_messages []) = [hello]"
  by (simp add: anthropic_request_def two_system_messages_def hello_def system_text_def)

text \<open>
  C9 (as amended). In the request body of the Anthropic-style path, the messages
  array is the message list without its system-role messages, wherever they
  stand. When system-role messages are present, the \<^verbatim>\<open>system\<close> field is decided
  by the last of them in list order: it is the text of that message (its string
  content, or the \<^verbatim>\<open>text\<close> fields of its blocks joined by newlines, a block
  without text counting as empty) when this text is not empty, and the field is
  left out when it is empty. Without a system-role message there is no field.
\<close>

theorem C9_system_messages_extracted:
  "a_messages (anthropic_request mdl limit msgs tools) = filter (\<lambda>m. role m \<noteq> System) msgs \<and>
   (\<forall>m \<in> set (a_messages (anthropic_request mdl limit msgs tools)). role m \<noteq> System) \<and>
   (\<forall>earlier s. filter (\<lambda>m. role m = System) msgs = earlier @ [s] \<longrightarrow>
      a_system (anthropic_request mdl limit msgs tools) =
        (if system_text (content s) = [] then None else Some (system_text (content s)))) \<and>
   (filter (\<lambda>m. role m = System) msgs = [] \<longrightarrow>
      a_system (anthropic_request mdl limit msgs tools) = None)"
  by (simp add: anthropic_request_messages anthropic_request_system)

theorem C9_system_messages_extracted_witness:
  "a_messages (anthropic_request ''claude'' 4096
      [\<lparr>role = System, content = Str ''First''\<rparr>, hello,
       \<lparr>role = System, content = Blocks [Text ''Be'', ToolUse ''t'' ''n'' 0, Text ''brief'']\<rparr>] [])
     = [hello] \<and>
   a_system (anthropic_request ''claude'' 4096
      [\<lparr>role = System, content = Str ''First''\<rparr>, hello,
       \<lparr>role = System, content = Blocks [Text ''Be'', ToolUse ''t'' ''n'' 0, Text ''brief'']\<rparr>] [])
     = Some (''Be'' @ newline @ newline @ ''brief'') \<and>
   a_system (anthropic_request ''claude'' 4096 [hello] []) = None"
proof -
  let ?s = "\<lparr>role = System, content = Blocks [Text ''Be'', ToolUse ''t'' ''n'' (0::nat), Text ''brief'']\<rparr>"
  let ?msgs = "[\<lparr>role = System, content = Str ''First''\<rparr>, hello, ?s]"
  let ?req = "anthropic_request ''claude'' 4096 ?msgs []"
  have sys: "filter (\<lambda>m. role m = System) ?msgs = [\<lparr>role = System, content = Str ''First''\<rparr>] @ [?s]"
    by (simp add: hello_def)
  have rest: "filter (\<lambda>m. role m \<noteq> System) ?msgs = [hello]"
    by (simp add: hello_def)
  have joined: "system_text (content ?s) = ''Be'' @ newline @ newline @ ''brief''"
    by (simp add: system_text_def text_or_empty_def)
  have nonempty: "''Be'' @ newline @ newline @ ''brief'' \<noteq> []"
    by simp
  have none: "filter (\<lambda>m. role m = System) [hello] = []"
    by (simp add: hello_def)
  note inst = C9_system_messages_extracted [of "''claude''" 4096 ?msgs "[]"]
  from inst have kept: "a_messages ?req = filter (\<lambda>m. role m \<noteq> System) ?msgs"
    by (rule conjunct1)
  from inst have "\<forall>earlier s. filter (\<lambda>m. role m = System) ?msgs = earlier @ [s] \<longrightarrow>
      a_system ?req = (if system_text (content s) = [] then None else Some (system_text (content s)))"
    by blast
  with sys have "a_system ?req
      = (if system_text (content ?s) = [] then None else Some (system_text (content ?s)))"
    by blast
  with joined nonempty have field: "a_system ?req = Some (''Be'' @ newline @ newline @ ''brief'')"
    by (simp only: if_False)
  from C9_system_messages_extracted [of "''claude''" 4096 "[hello]" "[]"]
  have "filter (\<lambda>m. role m = System) [hello] = [] \<longrightarrow>
      a_system (anthropic_request ''claude'' 4096 [hello] []) = None"
    by blast
  with none have "a_system (anthropic_request ''claude'' 4096 [hello] []) = None"
    by blast
  with kept rest field show ?thesis
    by (simp only: simp_thms)
qed

text \<open>
  C8 fails as stated: a plain-text user message sent through either conversion
  and parsed back comes out as an assistant message. The inbound conversion
  returns no role; the only message built from a response is the assistant turn.
\<close>

theorem C8_role_counterexample:
  "roundtrip_openai scenario_builtins hello
     = [Inr \<lparr>role = Assistant, content = Blocks [Text ''Hello'']\<rparr>] \<and>
   roundtrip_anthropic hello = [\<lparr>role = Assistant, content = Blocks [Text ''Hello'']\<rparr>] \<and>
   role hello = User"
  by (simp add: roundtrip_openai_def roundtrip_anthropic_def hello_def convertMessage_def
      openai_message_def openai_echo_def convertOpenAIResponseToAnthropic_def assistant_turn_def
      anthropic_request_def anthropic_echo_def anthropic_inbound_def)

text \<open>
  C8 (as amended). Let a plain-text message have the role \<open>r\<close> and the text
  \<open>t\<close>. The OpenAI-style outbound conversion gives exactly one wire message,
  with the same role and the same text; a response whose choice carries that wire
  message is parsed back to one text block holding \<open>t\<close>, or to no block when
  \<open>t\<close> is empty. The Anthropic-style outbound conversion keeps a message that
  is not a system message unchanged in the messages array and sets no \<^verbatim>\<open>system\<close>
  field; a system message is removed from the array, its text is the \<^verbatim>\<open>system\<close>
  field when it is not empty and the field is left out when it is empty, and there
  is no wire message to parse back. The Anthropic-style inbound conversion returns
  the content of a response unchanged, so a response carrying \<open>t\<close> as one text
  block is parsed back to that block. In each case where a message is rebuilt, its
  text is exactly \<open>t\<close> and its role is \<^verbatim>\<open>assistant\<close>, whatever \<open>r\<close> was: the
  role is reproduced for assistant messages only.
\<close>

theorem C8_plain_text_round_trip:
  "convertMessage b \<lparr>role = r, content = Str t\<rparr> = Inr [openai_message (Role r) (Some t)] \<and>
   roundtrip_openai b \<lparr>role = r, content = Str t\<rparr>
     = [Inr \<lparr>role = Assistant, content = Blocks (if t = [] then [] else [Text t])\<rparr>] \<and>
   message_text \<lparr>role = Assistant, content = Blocks (if t = [] then [] else [Text t])\<rparr> = t \<and>
   (r \<noteq> System \<longrightarrow>
      a_messages (anthropic_request mdl limit [\<lparr>role = r, content = Str t\<rparr>] tools)
        = [\<lparr>role = r, content = Str t\<rparr>] \<and>
      a_system (anthropic_request mdl limit [\<lparr>role = r, content = Str t\<rparr>] tools) = None \<and>
      roundtrip_anthropic \<lparr>role = r, content = Str t\<rparr>
        = [\<lparr>role = Assistant, content = Blocks [Text t]\<rparr>]) \<and>
   message_text \<lparr>role = Assistant, content = Blocks [Text t]\<rparr> = t \<and>
   (r = System \<longrightarrow>
      a_messages (anthropic_request mdl limit [\<lparr>role = r, content = Str t\<rparr>] tools) = [] \<and>
      a_system (anthropic_request mdl limit [\<lparr>role = r, content = Str t\<rparr>] tools)
        = (if t = [] then None else Some t) \<and>
      roundtrip_anthropic \<lparr>role = r, content = Str t\<rparr> = []) \<and>
   resp_content (anthropic_inbound data) = r_content data \<and>
   assistant_turn response = \<lparr>role = Assistant, content = Blocks (resp_content response)\<rparr>"
proof (intro conjI impI)
  show "convertMessage b \<lparr>role = r, content = Str t\<rparr> = Inr [openai_message (Role r) (Some t)]"
    by (simp add: convertMessage_def)
next
  show "roundtrip_openai b \<lparr>role = r, content = Str t\<rparr>
     = [Inr \<lparr>role = Assistant, content = Blocks (if t = [] then [] else [Text t])\<rparr>]"
    by (simp add: roundtrip_openai_def convertMessage_def openai_message_def openai_echo_def
        convertOpenAIResponseToAnthropic_def assistant_turn_def)
next
  show "message_text \<lparr>role = Assistant, content = Blocks (if t = [] then [] else [Text t])\<rparr> = t"
    by (simp add: message_text_def textBlocks_def List.map_filter_simps)
next
  assume "r \<noteq> System"
  then show "a_messages (anthropic_request mdl limit [\<lparr>role = r, content = Str t\<rparr>] tools)
        = [\<lparr>role = r, content = Str t\<rparr>]"
    by (simp add: anthropic_request_messages)
next
  assume "r \<noteq> System"
  then show "a_system (anthropic_request mdl limit [\<lparr>role = r, content = Str t\<rparr>] tools) = None"
    by (simp add: anthropic_request_system)
next
  assume "r \<noteq> System"
  then show "roundtrip_anthropic \<lparr>role = r, content = Str t\<rparr>
        = [\<lparr>role = Assistant, content = Blocks [Text t]\<rparr>]"
    by (simp add: roundtrip_anthropic_def anthropic_request_messages anthropic_echo_def
        anthropic_inbound_def assistant_turn_def)
next
  show "message_text \<lparr>role = Assistant, content = Blocks [Text t]\<rparr> = t"
    by (simp add: message_text_def textBlocks_def List.map_filter_simps)
next
  assume "r = System"
  then show "a_messages (anthropic_request mdl limit [\<lparr>role = r, content = Str t\<rparr>] tools) = []"
    by (simp add: anthropic_request_messages)
next
  assume "r = System"
  then show "a_system (anthropic_request mdl limit [\<lparr>role = r, content = Str t\<rparr>] tools)
        = (if t = [] then None else Some t)"
    by (simp add: anthropic_request_system system_text_def)
next
  assume "r = System"
  then show "roundtrip_anthropic \<lparr>role = r, content = Str t\<rparr> = []"
    by (simp add: roundtrip_anthropic_def anthropic_request_messages)
next
  show "resp_content (anthropic_inbound data) = r_content data"
    by (simp add: anthropic_inbound_def)
next
  show "assistant_turn response = \<lparr>role = Assistant, content = Blocks (resp_content response)\<rparr>"
    by (simp add: assistant_turn_def)
qed

theorem C8_plain_text_round_trip_witness:
  "roundtrip_openai scenario_builtins \<lparr>role = Assistant, content = Str ''Hi''\<rparr>
     = [Inr \<lparr>role = Assistant, content = Blocks [Text ''Hi'']\<rparr>] \<and>
   roundtrip_anthropic \<lparr>role = Assistant, content = Str ''Hi''\<rparr>
     = [\<lparr>role = Assistant, content = Blocks [Text ''Hi'']\<rparr> :: nat Message] \<and>
   a_messages (anthropic_request ''claude'' 4096 [\<lparr>role = System, content = Str ''Be brief''\<rparr>] [])
     = ([] :: nat Message list) \<and>
   a_system (anthropic_request ''claude'' 4096
      [\<lparr>role = System, content = Str ''Be brief''\<rparr> :: nat Message] []) = Some ''Be brief'' \<and>
   a_system (anthropic_request ''claude'' 4096
      [\<lparr>role = System, content = Str []\<rparr> :: nat Message] []) = None \<and>
   roundtrip_anthropic \<lparr>role = System, content = Str ''Be brief''\<rparr> = ([] :: nat Message list)"
proof -
  have a: "Assistant \<noteq> System" and s: "System = System"
    by simp_all
  note hi = C8_plain_text_round_trip [of scenario_builtins Assistant "''Hi''" "''claude''" 4096 "[]"
      tool_use_reply "anthropic_inbound tool_use_reply"]
  note brief = C8_plain_text_round_trip [of scenario_builtins System "''Be brief''" "''claude''" 4096 "[]"
      tool_use_reply "anthropic_inbound tool_use_reply"]
  note empty = C8_plain_text_round_trip [of scenario_builtins System "[]" "''claude''" 4096 "[]"
      tool_use_reply "anthropic_inbound tool_use_reply"]
  from hi have "roundtrip_openai scenario_builtins \<lparr>role = Assistant, content = Str ''Hi''\<rparr>
     = [Inr \<lparr>role = Assistant, content = Blocks (if ''Hi'' = [] then [] else [Text ''Hi''])\<rparr>]"
    by blast
  then have openai: "roundtrip_openai scenario_builtins \<lparr>role = Assistant, content = Str ''Hi''\<rparr>
     = [Inr \<lparr>role = Assistant, content = Blocks [Text ''Hi'']\<rparr>]"
    by simp
  from hi a have anthropic: "roundtrip_anthropic \<lparr>role = Assistant, content = Str ''Hi''\<rparr>
     = [\<lparr>role = Assistant, content = Blocks [Text ''Hi'']\<rparr> :: nat Message]"
    by blast
  from brief s have removed:
    "a_messages (anthropic_request ''claude'' 4096 [\<lparr>role = System, content = Str ''Be brief''\<rparr>] [])
       = ([] :: nat Message list)"
    and no_wire: "roundtrip_anthropic \<lparr>role = System, content = Str ''Be brief''\<rparr> = ([] :: nat Message list)"
    by blast+
  from brief s have "a_system (anthropic_request ''claude'' 4096
       [\<lparr>role = System, content = Str ''Be brief''\<rparr> :: nat Message] [])
      = (if ''Be brief'' = [] then None else Some ''Be brief'')"
    by blast
  then have field: "a_system (anthropic_request ''claude'' 4096
       [\<lparr>role = System, content = Str ''Be brief''\<rparr> :: nat Message] []) = Some ''Be brief''"
    by simp
  from empty s have "a_system (anthropic_request ''claude'' 4096
      [\<lparr>role = System, content = Str []\<rparr> :: nat Message] [])
      = (if ([] :: string) = [] then None else Some [])"
    by blast
  then have omitted: "a_system (anthropic_request ''claude'' 4096
      [\<lparr>role = System, content = Str []\<rparr> :: nat Message] []) = None"
    by simp
  from openai anthropic removed field omitted no_wire show ?thesis
    by (simp only: simp_thms)
qed

section \<open>Properties of the graph compiler\<close>

lemma wire_entry_EdgeList_throws:
  "ns ''undefined'' = None \<Longrightarrow> wire_entry ns inputNode (key, EdgeList es) = Inl PipeOfUndefined"
  by (simp add: wire_entry_def transformEvent_def property_key_def)

text \<open>
  C6 is right and the code is not: an \<^verbatim>\<open>in\<close> entry whose value is a list of
  edges should have each edge wired as a single edge is. An array is an object
  too, so the branch for a single edge runs first, on the array itself: it looks
  up the node \<^verbatim>\<open>nodes[undefined]\<close> and calls \<^verbatim>\<open>pipe\<close> on it, which throws
  before the branch for arrays is reached. The workflow with the single edge
  compiles to one forwarding subscription; the same workflow with that edge in a
  one-element list does not compile.
\<close>

theorem C6_edge_list_does_not_compile:
  "compile edge_list_workflow = Inl PipeOfUndefined \<and>
   map_sum id wires (compile single_edge_workflow)
     = Inr [\<lparr>producer = ''input1'', out_key = Some ''data'', consumer = ''output1'',
             in_key = ''data''\<rparr>]"
  by (simp add: edge_list_workflow_def single_edge_workflow_def compile_def nodeTypes_def Let_def
      wire_entry_def transformEvent_def property_key_def has_pipe_def)

end
